theory Spec2Isabelle
  imports Complex_Main
begin

section \<open>Password entropy evaluation: the model\<close>

text \<open>
  The development follows the three modules of the repository:
  \<^verbatim>\<open>services/services.py\<close> (length, keyspace, entropy, crack time, strength bands and
  the orchestrating \<^verbatim>\<open>evaluate_password\<close>), \<^verbatim>\<open>database/database.py\<close> (the global
  connection, the memoised membership query and the rank query) and \<^verbatim>\<open>main.py\<close>
  (start-up and the endpoint).

  Conventions of the embedding.
  \<^item> A Python \<^verbatim>\<open>str\<close> that is an input (a password) is a list of Unicode code points.
    The character predicates of the runtime (\<^verbatim>\<open>islower\<close>, \<^verbatim>\<open>isupper\<close>,
    \<^verbatim>\<open>isdigit\<close>, \<^verbatim>\<open>isalnum\<close>) and \<^verbatim>\<open>str.lower\<close> are tables of the interpreter,
    not of the repository: every function that uses them takes them as a parameter.
  \<^item> The texts the program produces are \<open>string\<close>s; a character with an accent is
    written by its code point (\<open>CHR 0xE9\<close> is e-acute), all of them below 256.
  \<^item> A Python \<^verbatim>\<open>float\<close> is read as the real number it stands for, so rounding
    errors of the hardware are not part of the model. The one place where the range of a
    float decides the control flow, the overflow of \<^verbatim>\<open>2**entropy\<close>, is a branch of
    the model.
  \<^item> An exception is a value of type \<open>error\<close>; a function that can raise returns
    \<open>error + 'a\<close>.
  \<^item> The module-level state of \<^verbatim>\<open>database.py\<close> (the connection, the memo table of
    \<^verbatim>\<open>lru_cache\<close>), the database file and what was printed are fields of one record
    that every stateful function takes and returns.
\<close>

subsection \<open>Strings and the tables of the runtime\<close>

type_synonym codepoint = nat
type_synonym pystr = "codepoint list"

record unicode_tables =
  islower :: "codepoint \<Rightarrow> bool"
  isupper :: "codepoint \<Rightarrow> bool"
  isdigit :: "codepoint \<Rightarrow> bool"
  isalnum :: "codepoint \<Rightarrow> bool"
  str_lower :: "pystr \<Rightarrow> pystr"

text \<open>
  One concrete table, for evaluating examples: it agrees with CPython on the ASCII code
  points and on U+4E2D, an ideograph (alphanumeric, neither lower nor upper case, not a
  digit). On other code points it answers as for a symbol.
\<close>

definition sample_tables :: unicode_tables where
  "sample_tables =
     \<lparr> islower = (\<lambda>c. 97 \<le> c \<and> c \<le> 122),
       isupper = (\<lambda>c. 65 \<le> c \<and> c \<le> 90),
       isdigit = (\<lambda>c. 48 \<le> c \<and> c \<le> 57),
       isalnum = (\<lambda>c. (97 \<le> c \<and> c \<le> 122) \<or> (65 \<le> c \<and> c \<le> 90)
                      \<or> (48 \<le> c \<and> c \<le> 57) \<or> c = 0x4E2D),
       str_lower = map (\<lambda>c. if 65 \<le> c \<and> c \<le> 90 then c + 32 else c) \<rparr>"

definition pystr_of :: "string \<Rightarrow> pystr" where
  "pystr_of s = map of_char s"

datatype error = ValueError | OverflowError | TypeError | RuntimeError

subsection \<open>services.py: length, keyspace, entropy\<close>

definition calculate_L :: "pystr \<Rightarrow> int" where
  "calculate_L password = int (length password)"

text \<open>
  \<^verbatim>\<open>calculate_N\<close>: \<^verbatim>\<open>keyspace\<close> starts at 0 and each of the four \<^verbatim>\<open>if\<close>
  statements adds the weight of a class that \<^verbatim>\<open>any(...)\<close> found; the last line
  replaces 0 by 1.
\<close>

definition calculate_N :: "unicode_tables \<Rightarrow> pystr \<Rightarrow> int" where
  "calculate_N U password =
     (let keyspace = 0;
          has_lowercase = list_ex (islower U) password;
          has_uppercase = list_ex (isupper U) password;
          has_digits = list_ex (isdigit U) password;
          has_symbols = list_ex (\<lambda>c. \<not> isalnum U c) password;
          keyspace = (if has_lowercase then keyspace + 26 else keyspace);
          keyspace = (if has_uppercase then keyspace + 26 else keyspace);
          keyspace = (if has_digits then keyspace + 10 else keyspace);
          keyspace = (if has_symbols then keyspace + 32 else keyspace)
      in if keyspace > 0 then keyspace else 1)"

text \<open>\<^verbatim>\<open>math.log2\<close> raises \<^verbatim>\<open>ValueError\<close> on an argument that is not positive.\<close>

definition math_log2 :: "int \<Rightarrow> error + real" where
  "math_log2 x = (if x \<le> 0 then Inl ValueError else Inr (log 2 (real_of_int x)))"

text \<open>
  \<^verbatim>\<open>round(x, ndigits)\<close>: the multiple of \<open>10 ^ - ndigits\<close> nearest to \<open>x\<close>, a tie
  going to the even multiple.
\<close>

definition py_round :: "real \<Rightarrow> nat \<Rightarrow> real" where
  "py_round x ndigits =
     (let y = x * 10 ^ ndigits;
          f = \<lfloor>y\<rfloor>;
          d = y - real_of_int f
      in real_of_int (if d < 1 / 2 then f
                      else if 1 / 2 < d then f + 1
                      else if even f then f else f + 1) / 10 ^ ndigits)"

text \<open>
  \<^verbatim>\<open>calculate_entropy\<close> in two steps: \<open>entropy_from\<close> is the body of the function
  below the two assignments to \<^verbatim>\<open>L\<close> and \<^verbatim>\<open>N\<close>, so that its guard can be looked at
  for values of \<^verbatim>\<open>N\<close> that \<^verbatim>\<open>calculate_N\<close> never returns.
\<close>

definition entropy_from :: "int \<Rightarrow> int \<Rightarrow> error + real" where
  "entropy_from L N =
     (if L = 0 \<or> N = 0 then Inr 0
      else (case math_log2 N of
              Inl e \<Rightarrow> Inl e
            | Inr l \<Rightarrow> Inr (py_round (real_of_int L * l) 2)))"

definition calculate_entropy :: "unicode_tables \<Rightarrow> pystr \<Rightarrow> error + real" where
  "calculate_entropy U password =
     (let L = calculate_L password;
          N = calculate_N U password
      in entropy_from L N)"

subsection \<open>services.py: composition\<close>

record CompositionInfo =
  comp_length :: int
  has_lowercase :: bool
  has_uppercase :: bool
  has_digits :: bool
  has_symbols :: bool
  keyspace :: int

definition analyze_composition :: "unicode_tables \<Rightarrow> pystr \<Rightarrow> CompositionInfo" where
  "analyze_composition U password =
     \<lparr> comp_length = calculate_L password,
       has_lowercase = list_ex (islower U) password,
       has_uppercase = list_ex (isupper U) password,
       has_digits = list_ex (isdigit U) password,
       has_symbols = list_ex (\<lambda>c. \<not> isalnum U c) password,
       keyspace = calculate_N U password \<rparr>"

subsection \<open>services.py: crack time\<close>

record CrackTime =
  ct_value :: real
  ct_unit :: string

text \<open>
  \<^verbatim>\<open>2**entropy\<close> with a float exponent is the float power: it raises
  \<^verbatim>\<open>OverflowError\<close> when the result is beyond the largest double, which is the case
  exactly from the exponent 1024 on. An underflow gives 0.0 without an error, and the
  real power is then below every threshold as well.
\<close>

definition float_pow2 :: "real \<Rightarrow> error + real" where
  "float_pow2 e = (if 1024 \<le> e then Inl OverflowError else Inr (2 powr e))"

definition calculate_crack_time :: "real \<Rightarrow> error + CrackTime" where
  "calculate_crack_time entropy =
     (let attempts_per_second = 10 ^ 11
      in case float_pow2 entropy of
           Inl e \<Rightarrow> Inl e
         | Inr total_combinations \<Rightarrow>
             (let seconds = total_combinations / (2 * attempts_per_second)
              in if seconds < 1 then
                   Inr \<lparr> ct_value = py_round (seconds * 1000) 2, ct_unit = ''milisegundos'' \<rparr>
                 else if seconds < 60 then
                   Inr \<lparr> ct_value = py_round seconds 2, ct_unit = ''segundos'' \<rparr>
                 else if seconds < 3600 then
                   Inr \<lparr> ct_value = py_round (seconds / 60) 2, ct_unit = ''minutos'' \<rparr>
                 else if seconds < 86400 then
                   Inr \<lparr> ct_value = py_round (seconds / 3600) 2, ct_unit = ''horas'' \<rparr>
                 else if seconds < 31536000 then
                   Inr \<lparr> ct_value = py_round (seconds / 86400) 2,
                         ct_unit = ''d'' @ [CHR 0xED] @ ''as'' \<rparr>
                 else if seconds < 31536000000 then
                   Inr \<lparr> ct_value = py_round (seconds / 31536000) 2,
                         ct_unit = ''a'' @ [CHR 0xF1] @ ''os'' \<rparr>
                 else
                   Inr \<lparr> ct_value = py_round (seconds / 31536000000) 2,
                         ct_unit = ''milenios'' \<rparr>))"

subsection \<open>services.py: strength bands\<close>

definition get_strength_category :: "real \<Rightarrow> string \<times> int \<times> string" where
  "get_strength_category entropy =
     (if entropy < 40 then
        (''Muy D'' @ [CHR 0xE9] @ ''bil'', 1,
         ''Aumenta la longitud y usa diferentes tipos de caracteres (may'' @ [CHR 0xFA]
           @ ''sculas, min'' @ [CHR 0xFA] @ ''sculas, n'' @ [CHR 0xFA] @ ''meros, s''
           @ [CHR 0xED] @ ''mbolos).'')
      else if entropy < 60 then
        (''D'' @ [CHR 0xE9] @ ''bil'', 2,
         ''Considera agregar m'' @ [CHR 0xE1]
           @ ''s caracteres y variar los tipos de caracteres utilizados.'')
      else if entropy < 80 then
        (''Aceptable'', 3,
         ''Contrase'' @ [CHR 0xF1] @ ''a razonable, pero podr'' @ [CHR 0xED]
           @ ''a mejorarse con mayor longitud o complejidad.'')
      else if entropy < 100 then
        (''Fuerte'', 4,
         ''Buena contrase'' @ [CHR 0xF1]
           @ ''a. Mantenla segura y no la reutilices en otros sitios.'')
      else
        (''Muy Fuerte'', 5,
         ''Excelente contrase'' @ [CHR 0xF1] @ ''a. Aseg'' @ [CHR 0xFA]
           @ ''rate de almacenarla de forma segura.''))"

subsection \<open>database.py: the connection and the two queries\<close>

text \<open>
  Modelled from the spec: the schema of table \<^verbatim>\<open>passwords\<close>, which a migration
  script outside the sources creates. A row holds a lower-cased password and its integer
  rank; the rows are kept in table order, and a query returns the first row that matches.
\<close>

type_synonym connection = "(pystr \<times> int) list"

text \<open>What the program prints, one constructor for each \<^verbatim>\<open>print\<close> that matters here.\<close>

datatype log_line =
    DbFileNotFound
  | DbConnected int
  | DbConnectError string
  | SearchError string
  | RankError string
  | StartupFailed
  | EvaluationError error

text \<open>
  The state: the file \<^verbatim>\<open>passwords.db\<close> on disk (\<open>None\<close> when it does not exist),
  the global \<^verbatim>\<open>DB_CONNECTION\<close>, the memo table of \<^verbatim>\<open>lru_cache\<close> with the most
  recently used key first and its two counters, and the printed lines. \<open>db_faults\<close> is
  the environment's part: whether each of the coming database operations raises
  (\<open>Some\<close> of the exception's text) or succeeds (\<open>None\<close>, also when the list is
  exhausted). One entry is consumed by the query of each \<^verbatim>\<open>try\<close> block, and at
  start-up one by connecting and one by counting the rows.
\<close>

record world =
  db_file :: "connection option"
  DB_CONNECTION :: "connection option"
  db_faults :: "string option list"
  lru :: "(pystr \<times> bool) list"
  hits :: nat
  misses :: nat
  stdout :: "log_line list"

definition next_fault :: "world \<Rightarrow> string option \<times> world" where
  "next_fault w =
     (case db_faults w of
        [] \<Rightarrow> (None, w)
      | f # fs \<Rightarrow> (f, w\<lparr> db_faults := fs \<rparr>))"

text \<open>
  \<^verbatim>\<open>cursor.execute('SELECT ... WHERE password_lower = ?', (key,))\<close> followed by
  \<^verbatim>\<open>fetchone()\<close>: the exception's text, or the rank of the first matching row.
\<close>

definition select_row :: "world \<Rightarrow> connection \<Rightarrow> pystr \<Rightarrow> (string + int option) \<times> world" where
  "select_row w conn key =
     (case next_fault w of
        (Some e, w') \<Rightarrow> (Inl e, w')
      | (None, w') \<Rightarrow> (Inr (map_of conn key), w'))"

definition init_database :: "world \<Rightarrow> bool \<times> world" where
  "init_database w =
     (case db_file w of
        None \<Rightarrow> (False, w\<lparr> stdout := stdout w @ [DbFileNotFound] \<rparr>)
      | Some db \<Rightarrow>
          (case next_fault w of
             (Some e, w1) \<Rightarrow> (False, w1\<lparr> stdout := stdout w1 @ [DbConnectError e] \<rparr>)
           | (None, w1) \<Rightarrow>
               (let w2 = w1\<lparr> DB_CONNECTION := Some db \<rparr>
                in case next_fault w2 of
                     (Some e, w3) \<Rightarrow>
                       (False, w3\<lparr> stdout := stdout w3 @ [DbConnectError e] \<rparr>)
                   | (None, w3) \<Rightarrow>
                       (True, w3\<lparr> stdout := stdout w3 @ [DbConnected (int (length db))] \<rparr>))))"

text \<open>The body of \<^verbatim>\<open>is_common_password\<close>, which the decorator wraps.\<close>

definition is_common_password_wrapped ::
    "unicode_tables \<Rightarrow> world \<Rightarrow> pystr \<Rightarrow> bool \<times> world" where
  "is_common_password_wrapped U w password =
     (case DB_CONNECTION w of
        None \<Rightarrow> (False, w)
      | Some conn \<Rightarrow>
          (case select_row w conn (str_lower U password) of
             (Inr row, w') \<Rightarrow> (row \<noteq> None, w')
           | (Inl e, w') \<Rightarrow> (False, w'\<lparr> stdout := stdout w' @ [SearchError e] \<rparr>)))"

text \<open>
  \<^verbatim>\<open>@lru_cache(maxsize=10000)\<close>: the key is the argument as it was passed. A hit
  returns the stored result and makes the key the most recent one; a miss calls the body,
  stores what it returned and, when the table is full, drops the least recently used key.
\<close>

definition maxsize :: nat where
  "maxsize = 10000"

definition is_common_password :: "unicode_tables \<Rightarrow> world \<Rightarrow> pystr \<Rightarrow> bool \<times> world" where
  "is_common_password U w password =
     (case map_of (lru w) password of
        Some result \<Rightarrow>
          (result, w\<lparr> lru := (password, result) # filter (\<lambda>kv. fst kv \<noteq> password) (lru w),
                       hits := hits w + 1 \<rparr>)
      | None \<Rightarrow>
          (case is_common_password_wrapped U w password of
             (result, w') \<Rightarrow>
               (result, w'\<lparr> lru := take maxsize ((password, result) # lru w'),
                             misses := misses w' + 1 \<rparr>)))"

definition get_password_rank :: "unicode_tables \<Rightarrow> world \<Rightarrow> pystr \<Rightarrow> int option \<times> world" where
  "get_password_rank U w password =
     (case DB_CONNECTION w of
        None \<Rightarrow> (None, w)
      | Some conn \<Rightarrow>
          (case select_row w conn (str_lower U password) of
             (Inr result, w') \<Rightarrow> (result, w')
           | (Inl e, w') \<Rightarrow> (None, w'\<lparr> stdout := stdout w' @ [RankError e] \<rparr>)))"

subsection \<open>services.py: the evaluation\<close>

record PasswordEvaluation =
  strength :: string
  score :: int
  entropy :: real
  is_common :: bool
  rank :: "int option"
  crack_time :: CrackTime
  composition :: CompositionInfo
  recommendation :: string

text \<open>The format specification \<^verbatim>\<open>{rank:,}\<close>: decimal digits in groups of three.\<close>

definition digit_char :: "nat \<Rightarrow> char" where
  "digit_char d = ''0123456789'' ! (d mod 10)"

fun digits10 :: "nat \<Rightarrow> string" where
  "digits10 n =
     (if n < 10 then [digit_char n]
      else digits10 (n div 10) @ [digit_char (n mod 10)])"

fun group3 :: "string \<Rightarrow> string" where
  "group3 (a # b # c # d # ds) = a # b # c # CHR '','' # group3 (d # ds)"
| "group3 ds = ds"

definition format_thousands :: "int \<Rightarrow> string" where
  "format_thousands n =
     (if n < 0 then ''-'' else []) @ rev (group3 (rev (digits10 (nat \<bar>n\<bar>))))"

text \<open>Formatting \<^verbatim>\<open>None\<close> with that specification raises \<^verbatim>\<open>TypeError\<close>.\<close>

definition dictionary_recommendation :: "int option \<Rightarrow> error + string" where
  "dictionary_recommendation r =
     (case r of
        None \<Rightarrow> Inl TypeError
      | Some n \<Rightarrow>
          Inr (''Esta contrase'' @ [CHR 0xF1] @ ''a est'' @ [CHR 0xE1] @ '' en el puesto #''
               @ format_thousands n @ '' de las m'' @ [CHR 0xE1] @ ''s comunes. ''
               @ ''Es extremadamente predecible. C'' @ [CHR 0xE1]
               @ ''mbiala inmediatamente.''))"

definition dictionary_strength :: string where
  "dictionary_strength = ''Muy D'' @ [CHR 0xE9] @ ''bil (En Diccionario)''"

definition evaluate_password ::
    "unicode_tables \<Rightarrow> world \<Rightarrow> pystr \<Rightarrow> (error + PasswordEvaluation) \<times> world" where
  "evaluate_password U w password =
     (case calculate_entropy U password of
        Inl e \<Rightarrow> (Inl e, w)
      | Inr entropy_raw \<Rightarrow>
          (case is_common_password U w password of
             (common, w1) \<Rightarrow>
               (case (if common then get_password_rank U w1 password else (None, w1)) of
                  (rk, w2) \<Rightarrow>
                    (case (if common then
                             (case dictionary_recommendation rk of
                                Inl e \<Rightarrow> Inl e
                              | Inr text \<Rightarrow> Inr (dictionary_strength, 0, 0, text))
                           else
                             (case get_strength_category entropy_raw of
                                (st, sc, text) \<Rightarrow> Inr (st, sc, entropy_raw, text))) of
                       Inl e \<Rightarrow> (Inl e, w2)
                     | Inr (st, sc, entropy_adjusted, text) \<Rightarrow>
                         (let comp = analyze_composition U password
                          in case calculate_crack_time entropy_adjusted of
                               Inl e \<Rightarrow> (Inl e, w2)
                             | Inr ct \<Rightarrow>
                                 (Inr \<lparr> strength = st, score = sc,
                                        entropy = entropy_adjusted, is_common = common,
                                        rank = rk, crack_time = ct, composition = comp,
                                        recommendation = text \<rparr>, w2))))))"

subsection \<open>main.py: start-up and the endpoint\<close>

text \<open>
  The part of \<^verbatim>\<open>lifespan\<close> before its \<^verbatim>\<open>yield\<close>: it raises \<^verbatim>\<open>RuntimeError\<close> when
  \<^verbatim>\<open>init_database\<close> answers \<^verbatim>\<open>False\<close>.
\<close>

definition lifespan_startup :: "world \<Rightarrow> (error + unit) \<times> world" where
  "lifespan_startup w =
     (case init_database w of
        (ok, w') \<Rightarrow>
          if \<not> ok then (Inl RuntimeError, w'\<lparr> stdout := stdout w' @ [StartupFailed] \<rparr>)
          else (Inr (), w'))"

text \<open>\<^verbatim>\<open>PasswordRequest\<close>: the field's \<^verbatim>\<open>min_length=1\<close> and \<^verbatim>\<open>max_length=128\<close>.\<close>

definition PasswordRequest_valid :: "pystr \<Rightarrow> bool" where
  "PasswordRequest_valid password = (1 \<le> length password \<and> length password \<le> 128)"

datatype response =
    PasswordResponse PasswordEvaluation
  | ValidationError
  | InternalServerError

definition evaluate_password_endpoint ::
    "unicode_tables \<Rightarrow> world \<Rightarrow> pystr \<Rightarrow> response \<times> world" where
  "evaluate_password_endpoint U w password =
     (if \<not> PasswordRequest_valid password then (ValidationError, w)
      else (case evaluate_password U w password of
              (Inr evaluation, w') \<Rightarrow> (PasswordResponse evaluation, w')
            | (Inl e, w') \<Rightarrow>
                (InternalServerError, w'\<lparr> stdout := stdout w' @ [EvaluationError e] \<rparr>)))"

fun serve :: "unicode_tables \<Rightarrow> world \<Rightarrow> pystr list \<Rightarrow> response list \<times> world" where
  "serve U w [] = ([], w)"
| "serve U w (p # ps) =
     (case evaluate_password_endpoint U w p of
        (r, w') \<Rightarrow> (case serve U w' ps of (rs, w'') \<Rightarrow> (r # rs, w'')))"

text \<open>
  The application as the server runs it: the start-up half of \<^verbatim>\<open>lifespan\<close> first, and
  the requests only when it did not raise.
\<close>

definition run_app ::
    "unicode_tables \<Rightarrow> world \<Rightarrow> pystr list \<Rightarrow> (error + response list) \<times> world" where
  "run_app U w requests =
     (case lifespan_startup w of
        (Inl e, w') \<Rightarrow> (Inl e, w')
      | (Inr u, w') \<Rightarrow> (case serve U w' requests of (rs, w'') \<Rightarrow> (Inr rs, w'')))"

text \<open>The state of a process that has just been started: nothing connected, nothing memoised.\<close>

definition fresh_world :: "connection option \<Rightarrow> string option list \<Rightarrow> world" where
  "fresh_world file faults =
     \<lparr> db_file = file, DB_CONNECTION = None, db_faults = faults, lru = [],
       hits = 0, misses = 0, stdout = [] \<rparr>"

subsection \<open>The formulas of the specification\<close>

text \<open>
  The three definitions of this part follow the words of the specification, not the
  code; the properties below compare the code with them.
\<close>

text \<open>
  The sum of the weights of the classes that a composition profile reports as present:
  26 for lower case, 26 for upper case, 10 for digits, 32 for symbols.
\<close>

definition spec_class_weights :: "CompositionInfo \<Rightarrow> int" where
  "spec_class_weights c =
     (if has_lowercase c then 26 else 0) + (if has_uppercase c then 26 else 0)
     + (if has_digits c then 10 else 0) + (if has_symbols c then 32 else 0)"

text \<open>
  The table of the crack-time estimator, in its order: the upper limit of a band in
  seconds, its unit and its divisor. The first band whose limit is above the seconds
  wins; beyond the last limit the unit is the millennium.
\<close>

definition spec_band_table :: "(real \<times> string \<times> real) list" where
  "spec_band_table =
     [(1, ''milisegundos'', 1 / 1000),
      (60, ''segundos'', 1),
      (3600, ''minutos'', 60),
      (86400, ''horas'', 3600),
      (31536000, ''d'' @ [CHR 0xED] @ ''as'', 86400),
      (31536000000, ''a'' @ [CHR 0xF1] @ ''os'', 31536000)]"

fun spec_select_band :: "(real \<times> string \<times> real) list \<Rightarrow> real \<Rightarrow> CrackTime" where
  "spec_select_band [] seconds =
     \<lparr> ct_value = py_round (seconds / 31536000000) 2, ct_unit = ''milenios'' \<rparr>"
| "spec_select_band ((limit, name, divisor) # rows) seconds =
     (if seconds < limit then \<lparr> ct_value = py_round (seconds / divisor) 2, ct_unit = name \<rparr>
      else spec_select_band rows seconds)"

text \<open>The seconds of the estimator: \<open>2 ^ E / (2 * attempts_per_second)\<close>.\<close>

definition spec_seconds :: "real \<Rightarrow> real" where
  "spec_seconds E = 2 powr E / (2 * 10 ^ 11)"

subsection \<open>Notions for the memo table\<close>

text \<open>
  What the store answers for a password, asked directly: whether the table has a row
  for its lower-cased form.
\<close>

definition store_member :: "unicode_tables \<Rightarrow> connection \<Rightarrow> pystr \<Rightarrow> bool" where
  "store_member U conn password = (map_of conn (str_lower U password) \<noteq> None)"

text \<open>A memo table whose every entry is what the store answers for its key.\<close>

definition cache_sound :: "unicode_tables \<Rightarrow> connection \<Rightarrow> (pystr \<times> bool) list \<Rightarrow> bool" where
  "cache_sound U conn memo = list_all (\<lambda>kv. snd kv = store_member U conn (fst kv)) memo"

text \<open>A state in which the store is connected and no coming operation raises.\<close>

definition healthy :: "world \<Rightarrow> connection \<Rightarrow> bool" where
  "healthy w conn = (DB_CONNECTION w = Some conn \<and> db_faults w = [])"

text \<open>A sequence of membership queries, each on the state the one before left.\<close>

fun run_queries :: "unicode_tables \<Rightarrow> world \<Rightarrow> pystr list \<Rightarrow> bool list \<times> world" where
  "run_queries U w [] = ([], w)"
| "run_queries U w (p # ps) =
     (case is_common_password U w p of
        (r, w') \<Rightarrow> (case run_queries U w' ps of (rs, w'') \<Rightarrow> (r # rs, w'')))"

subsection \<open>States for the examples\<close>

text \<open>
  A table of two rows; a started process connected to it, with a given schedule of
  failures and a given memo table; and a memo table that is full, with the password
  \<^verbatim>\<open>password\<close> as its least recently used key.
\<close>

definition sample_db :: connection where
  "sample_db = [(pystr_of ''123456'', 1), (pystr_of ''password'', 2)]"

definition running_world :: "string option list \<Rightarrow> (pystr \<times> bool) list \<Rightarrow> world" where
  "running_world faults memo =
     \<lparr> db_file = Some sample_db, DB_CONNECTION = Some sample_db, db_faults = faults,
       lru = memo, hits = 0, misses = 0, stdout = [] \<rparr>"

definition full_memo :: "(pystr \<times> bool) list" where
  "full_memo = map (\<lambda>i. ([i], False)) [1..<10000] @ [(pystr_of ''password'', True)]"

section \<open>Properties\<close>

subsection \<open>Evaluating the sample table\<close>

lemma sample_tables_simps:
  "islower sample_tables c = (97 \<le> c \<and> c \<le> 122)"
  "isupper sample_tables c = (65 \<le> c \<and> c \<le> 90)"
  "isdigit sample_tables c = (48 \<le> c \<and> c \<le> 57)"
  "isalnum sample_tables c = ((97 \<le> c \<and> c \<le> 122) \<or> (65 \<le> c \<and> c \<le> 90)
                      \<or> (48 \<le> c \<and> c \<le> 57) \<or> c = 0x4E2D)"
  "str_lower sample_tables = map (\<lambda>c. if 65 \<le> c \<and> c \<le> 90 then c + 32 else c)"
  by (simp_all add: sample_tables_def)

subsection \<open>Keyspace\<close>

lemma calculate_N_range: "1 \<le> calculate_N U s \<and> calculate_N U s \<le> 94"
  by (simp add: calculate_N_def Let_def)

text \<open>
  Claim C3. For every string the keyspace is the sum of the weights of the classes
  present (lower case 26, upper case 26, digits 10, symbols 32) whenever a class is
  present, and 1 when none is: for the empty string and for any other string without a
  recognised class. It is never zero. A string with exactly one class has that class's
  weight as its keyspace. The profile that \<^verbatim>\<open>analyze_composition\<close> reports carries the
  same keyspace.
\<close>

theorem calculate_N_class_weights:
  "(spec_class_weights (analyze_composition U s) \<noteq> 0 \<longrightarrow>
      calculate_N U s = spec_class_weights (analyze_composition U s))
   \<and> (spec_class_weights (analyze_composition U s) = 0 \<longrightarrow> calculate_N U s = 1)
   \<and> calculate_N U s \<noteq> 0
   \<and> (\<not> has_lowercase (analyze_composition U s) \<and> \<not> has_uppercase (analyze_composition U s)
        \<and> \<not> has_digits (analyze_composition U s) \<and> \<not> has_symbols (analyze_composition U s)
      \<longrightarrow> calculate_N U s = 1)
   \<and> calculate_N U [] = 1
   \<and> (has_lowercase (analyze_composition U s) \<and> \<not> has_uppercase (analyze_composition U s)
        \<and> \<not> has_digits (analyze_composition U s) \<and> \<not> has_symbols (analyze_composition U s)
      \<longrightarrow> calculate_N U s = 26)
   \<and> (\<not> has_lowercase (analyze_composition U s) \<and> has_uppercase (analyze_composition U s)
        \<and> \<not> has_digits (analyze_composition U s) \<and> \<not> has_symbols (analyze_composition U s)
      \<longrightarrow> calculate_N U s = 26)
   \<and> (\<not> has_lowercase (analyze_composition U s) \<and> \<not> has_uppercase (analyze_composition U s)
        \<and> has_digits (analyze_composition U s) \<and> \<not> has_symbols (analyze_composition U s)
      \<longrightarrow> calculate_N U s = 10)
   \<and> (\<not> has_lowercase (analyze_composition U s) \<and> \<not> has_uppercase (analyze_composition U s)
        \<and> \<not> has_digits (analyze_composition U s) \<and> has_symbols (analyze_composition U s)
      \<longrightarrow> calculate_N U s = 32)
   \<and> keyspace (analyze_composition U s) = calculate_N U s"
  by (simp add: calculate_N_def analyze_composition_def spec_class_weights_def Let_def)

text \<open>
  The theorem at six strings: one of each single class, the ideograph U+4E2D alone
  (not empty, no class), and one string with all four classes.
\<close>

theorem calculate_N_class_weights_witness:
  "calculate_N sample_tables (pystr_of ''abc'') = 26
   \<and> calculate_N sample_tables (pystr_of ''ABC'') = 26
   \<and> calculate_N sample_tables (pystr_of ''2024'') = 10
   \<and> calculate_N sample_tables (pystr_of ''#!'') = 32
   \<and> spec_class_weights (analyze_composition sample_tables [0x4E2D]) = 0
   \<and> calculate_N sample_tables [0x4E2D] = 1
   \<and> calculate_N sample_tables (pystr_of ''aB1!'') = 94"
  using calculate_N_class_weights [of sample_tables "pystr_of ''abc''"]
    calculate_N_class_weights [of sample_tables "pystr_of ''ABC''"]
    calculate_N_class_weights [of sample_tables "pystr_of ''2024''"]
    calculate_N_class_weights [of sample_tables "pystr_of ''#!''"]
    calculate_N_class_weights [of sample_tables "[0x4E2D]"]
    calculate_N_class_weights [of sample_tables "pystr_of ''aB1!''"]
  by (simp add: analyze_composition_def spec_class_weights_def pystr_of_def sample_tables_simps)

subsection \<open>Rounding\<close>

lemma py_round_zero: "py_round 0 n = 0"
  by (simp add: py_round_def)

lemma py_round_nonneg:
  assumes "0 \<le> x"
  shows "0 \<le> py_round x n"
proof -
  have "0 \<le> x * 10 ^ n" using assms by simp
  then have "0 \<le> \<lfloor>x * 10 ^ n\<rfloor>" by simp
  then show ?thesis
    by (simp add: py_round_def Let_def)
qed

lemma py_round_upper: "py_round x n \<le> x + 1 / 10 ^ n"
proof -
  define y where "y = x * 10 ^ n"
  have "real_of_int (if y - real_of_int \<lfloor>y\<rfloor> < 1 / 2 then \<lfloor>y\<rfloor>
                      else if 1 / 2 < y - real_of_int \<lfloor>y\<rfloor> then \<lfloor>y\<rfloor> + 1
                      else if even \<lfloor>y\<rfloor> then \<lfloor>y\<rfloor> else \<lfloor>y\<rfloor> + 1) \<le> y + 1"
    by (auto intro: order_trans [OF of_int_floor_le])
  then have "py_round x n \<le> (y + 1) / 10 ^ n"
    unfolding py_round_def Let_def y_def [symmetric]
    by (simp add: divide_right_mono)
  also have "\<dots> = x + 1 / 10 ^ n"
    by (simp add: y_def add_divide_distrib)
  finally show ?thesis .
qed

subsection \<open>Entropy\<close>

lemma calculate_entropy_eq:
  "calculate_entropy U s =
     Inr (py_round (real (length s) * log 2 (real_of_int (calculate_N U s))) 2)"
proof -
  have "1 \<le> calculate_N U s" using calculate_N_range by simp
  then show ?thesis
    by (simp add: calculate_entropy_def entropy_from_def calculate_L_def math_log2_def
        py_round_zero Let_def)
qed

lemma log2_keyspace_bounds:
  "0 \<le> log 2 (real_of_int (calculate_N U s)) \<and> log 2 (real_of_int (calculate_N U s)) < 7"
proof -
  have r: "1 \<le> calculate_N U s" "calculate_N U s \<le> 94" using calculate_N_range by simp_all
  then have "real_of_int (calculate_N U s) < 2 ^ 7" by simp
  then have "log 2 (real_of_int (calculate_N U s)) < log 2 (2 ^ 7)"
    using r by (subst log_less_cancel_iff) simp_all
  also have "log 2 (2 ^ 7) = 7" using log_pow_cancel [of 2 7] by simp
  finally show ?thesis using r by simp
qed

text \<open>
  Claim C2. For every string the entropy function returns (it raises nothing) the
  length times the binary logarithm of the keyspace, rounded to two decimal places. Its
  guard returns 0.0 for the length 0 and for the keyspace 0, whatever the other value
  is. The entropy of every string is at least 0 and the entropy of the empty string
  is 0.0.
\<close>

theorem calculate_entropy_formula:
  "calculate_entropy U s =
     Inr (py_round (real (length s) * log 2 (real_of_int (calculate_N U s))) 2)
   \<and> entropy_from 0 N = Inr 0
   \<and> entropy_from L 0 = Inr 0
   \<and> (\<exists>x. calculate_entropy U s = Inr x \<and> 0 \<le> x)
   \<and> calculate_entropy U [] = Inr 0"
proof -
  have "0 \<le> py_round (real (length s) * log 2 (real_of_int (calculate_N U s))) 2"
    using log2_keyspace_bounds [of U s] by (intro py_round_nonneg) simp
  then have ex: "\<exists>x. calculate_entropy U s = Inr x \<and> 0 \<le> x"
    by (simp add: calculate_entropy_eq)
  have e0: "calculate_entropy U [] = Inr 0"
    by (simp add: calculate_entropy_def entropy_from_def calculate_L_def)
  show ?thesis using calculate_entropy_eq [of U s] ex e0 by (simp add: entropy_from_def)
qed

subsection \<open>Strength bands\<close>

text \<open>
  Claim C4. On the entropies from 0 upwards the classifier's five bands are half-open,
  contiguous and exhaustive, each with its lower bound inside: score 1 on [0, 40),
  score 2 on [40, 60), score 3 on [60, 80), score 4 on [80, 100) and score 5 from 100
  on. Each band has a label of its own, so an entropy has exactly one label. The
  entropy 40.0 is in the band of score 2, not of score 1.
\<close>

theorem get_strength_category_bands:
  assumes "0 \<le> e"
  shows "(fst (snd (get_strength_category e)) = 1 \<longleftrightarrow> 0 \<le> e \<and> e < 40)
       \<and> (fst (snd (get_strength_category e)) = 2 \<longleftrightarrow> 40 \<le> e \<and> e < 60)
       \<and> (fst (snd (get_strength_category e)) = 3 \<longleftrightarrow> 60 \<le> e \<and> e < 80)
       \<and> (fst (snd (get_strength_category e)) = 4 \<longleftrightarrow> 80 \<le> e \<and> e < 100)
       \<and> (fst (snd (get_strength_category e)) = 5 \<longleftrightarrow> 100 \<le> e)
       \<and> (fst (get_strength_category e) = ''Muy D'' @ [CHR 0xE9] @ ''bil'' \<longleftrightarrow> e < 40)
       \<and> (fst (get_strength_category e) = ''D'' @ [CHR 0xE9] @ ''bil'' \<longleftrightarrow> 40 \<le> e \<and> e < 60)
       \<and> (fst (get_strength_category e) = ''Aceptable'' \<longleftrightarrow> 60 \<le> e \<and> e < 80)
       \<and> (fst (get_strength_category e) = ''Fuerte'' \<longleftrightarrow> 80 \<le> e \<and> e < 100)
       \<and> (fst (get_strength_category e) = ''Muy Fuerte'' \<longleftrightarrow> 100 \<le> e)"
  using assms by (simp add: get_strength_category_def)

theorem get_strength_category_bands_witness:
  "(0::real) \<le> 40
   \<and> fst (get_strength_category 40) = ''D'' @ [CHR 0xE9] @ ''bil''
   \<and> fst (snd (get_strength_category 40)) = 2
   \<and> fst (snd (get_strength_category 40)) \<noteq> 1
   \<and> fst (snd (get_strength_category 0)) = 1"
  using get_strength_category_bands [of 40] get_strength_category_bands [of 0] by simp

subsection \<open>Crack time\<close>

lemma calculate_crack_time_select:
  assumes "E < 1024"
  shows "calculate_crack_time E = Inr (spec_select_band spec_band_table (spec_seconds E))"
  using assms
  by (simp add: calculate_crack_time_def float_pow2_def spec_band_table_def spec_seconds_def Let_def)

lemma calculate_crack_time_overflow:
  assumes "1024 \<le> E"
  shows "calculate_crack_time E = Inl OverflowError"
  using assms by (simp add: calculate_crack_time_def float_pow2_def)

lemma seconds_mono: "E \<le> E' \<Longrightarrow> spec_seconds E \<le> spec_seconds E'"
  by (simp add: spec_seconds_def divide_right_mono)

text \<open>Seconds within the table's last limit come from an exponent far below 1024.\<close>

lemma seconds_below_1024:
  assumes "spec_seconds E \<le> 31536000000"
  shows "E < 1024"
proof (rule ccontr)
  assume "\<not> E < 1024"
  then have "(2::real) powr 74 \<le> 2 powr E" by (intro powr_mono) simp_all
  moreover have "(2::real) powr 74 = 2 ^ 74" by (simp add: powr_numeral)
  ultimately have "(2::real) ^ 74 \<le> 2 powr E" by simp
  then have "2 ^ 74 / (2 * 10 ^ 11) \<le> spec_seconds E"
    by (simp add: spec_seconds_def divide_right_mono)
  with assms show False by simp
qed

lemma py_round_one: "py_round 1 2 = 1"
  by (simp add: py_round_def)

lemma crack_time_at_limits:
  "(spec_seconds E = 1 \<longrightarrow>
      calculate_crack_time E = Inr \<lparr> ct_value = 1, ct_unit = ''segundos'' \<rparr>)
   \<and> (spec_seconds E = 60 \<longrightarrow>
      calculate_crack_time E = Inr \<lparr> ct_value = 1, ct_unit = ''minutos'' \<rparr>)
   \<and> (spec_seconds E = 3600 \<longrightarrow>
      calculate_crack_time E = Inr \<lparr> ct_value = 1, ct_unit = ''horas'' \<rparr>)
   \<and> (spec_seconds E = 86400 \<longrightarrow>
      calculate_crack_time E = Inr \<lparr> ct_value = 1, ct_unit = ''d'' @ [CHR 0xED] @ ''as'' \<rparr>)
   \<and> (spec_seconds E = 31536000 \<longrightarrow>
      calculate_crack_time E = Inr \<lparr> ct_value = 1, ct_unit = ''a'' @ [CHR 0xF1] @ ''os'' \<rparr>)
   \<and> (spec_seconds E = 31536000000 \<longrightarrow>
      calculate_crack_time E = Inr \<lparr> ct_value = 1, ct_unit = ''milenios'' \<rparr>)"
proof -
  have "spec_seconds E \<le> 31536000000 \<Longrightarrow>
      calculate_crack_time E = Inr (spec_select_band spec_band_table (spec_seconds E))"
    using seconds_below_1024 calculate_crack_time_select by blast
  then show ?thesis
    by (auto simp: spec_band_table_def py_round_one)
qed

lemma crack_time_zero:
  "calculate_crack_time 0 = Inr \<lparr> ct_value = 0, ct_unit = ''milisegundos'' \<rparr>"
  by (simp add: calculate_crack_time_def float_pow2_def py_round_def Let_def)

lemma seconds_zero: "spec_seconds 0 < 1 / 1000"
  by (simp add: spec_seconds_def)

lemma seconds_sixty: "spec_seconds (log 2 (12 * 10 ^ 12)) = 60"
  by (simp add: spec_seconds_def)

text \<open>
  Claim C5, as amended. For every entropy E below 1024 the estimator returns what the
  ordered band table selects for the seconds \<open>2 ^ E / (2 * 10 ^ 11)\<close>: milliseconds
  (times 1000) below 1 second, then seconds, minutes, hours, days, years and, from
  31536000000 seconds on, millennia, the value rounded to two decimal places. The
  seconds never decrease when the entropy increases. Seconds that are exactly a limit
  of the table fall into the next band (60 seconds are one minute). The entropy 0 has
  less than a millisecond and falls into the millisecond band.
\<close>

theorem calculate_crack_time_table:
  "(E < 1024 \<longrightarrow> calculate_crack_time E = Inr (spec_select_band spec_band_table (spec_seconds E)))
   \<and> (E \<le> E' \<longrightarrow> spec_seconds E \<le> spec_seconds E')
   \<and> (spec_seconds E = 1 \<longrightarrow>
        calculate_crack_time E = Inr \<lparr> ct_value = 1, ct_unit = ''segundos'' \<rparr>)
   \<and> (spec_seconds E = 60 \<longrightarrow>
        calculate_crack_time E = Inr \<lparr> ct_value = 1, ct_unit = ''minutos'' \<rparr>)
   \<and> (spec_seconds E = 3600 \<longrightarrow>
        calculate_crack_time E = Inr \<lparr> ct_value = 1, ct_unit = ''horas'' \<rparr>)
   \<and> (spec_seconds E = 86400 \<longrightarrow>
        calculate_crack_time E = Inr \<lparr> ct_value = 1, ct_unit = ''d'' @ [CHR 0xED] @ ''as'' \<rparr>)
   \<and> (spec_seconds E = 31536000 \<longrightarrow>
        calculate_crack_time E = Inr \<lparr> ct_value = 1, ct_unit = ''a'' @ [CHR 0xF1] @ ''os'' \<rparr>)
   \<and> (spec_seconds E = 31536000000 \<longrightarrow>
        calculate_crack_time E = Inr \<lparr> ct_value = 1, ct_unit = ''milenios'' \<rparr>)
   \<and> spec_seconds 0 < 1 / 1000
   \<and> calculate_crack_time 0 = Inr \<lparr> ct_value = 0, ct_unit = ''milisegundos'' \<rparr>"
  using calculate_crack_time_select [of E] seconds_mono [of E E'] crack_time_at_limits [of E]
    crack_time_zero seconds_zero
  by blast

text \<open>
  The theorem at the entropy whose seconds are exactly 60, at the entropy 1, and at the
  pair 0 and 1.
\<close>

theorem calculate_crack_time_table_witness:
  "spec_seconds (log 2 (12 * 10 ^ 12)) = 60
   \<and> calculate_crack_time (log 2 (12 * 10 ^ 12)) = Inr \<lparr> ct_value = 1, ct_unit = ''minutos'' \<rparr>
   \<and> (1::real) < 1024
   \<and> calculate_crack_time 1 = Inr (spec_select_band spec_band_table (spec_seconds 1))
   \<and> spec_seconds 0 \<le> spec_seconds 1"
  using calculate_crack_time_table [of "log 2 (12 * 10 ^ 12)" 0]
    calculate_crack_time_table [of 1 0] calculate_crack_time_table [of 0 1] seconds_sixty
  by simp

text \<open>
  The claim as it was stated, for every entropy, fails at 2000: the power overflows
  and the estimator returns no crack time.
\<close>

theorem calculate_crack_time_table_counterexample:
  "calculate_crack_time 2000 = Inl OverflowError
   \<and> calculate_crack_time 2000 \<noteq> Inr (spec_select_band spec_band_table (spec_seconds 2000))"
  by (simp add: calculate_crack_time_def float_pow2_def)

lemma valid_request_entropy:
  assumes "PasswordRequest_valid p"
  shows "\<exists>x. calculate_entropy U p = Inr x \<and> 0 \<le> x \<and> x < 1024"
proof -
  let ?l = "log 2 (real_of_int (calculate_N U p))"
  have len: "real (length p) \<le> 128" using assms by (simp add: PasswordRequest_valid_def)
  have l: "0 \<le> ?l" "?l < 7" using log2_keyspace_bounds by simp_all
  have "real (length p) * ?l \<le> 128 * 7"
    using len l by (intro mult_mono) simp_all
  moreover have "py_round (real (length p) * ?l) 2 \<le> real (length p) * ?l + 1 / 10 ^ 2"
    by (rule py_round_upper)
  ultimately have up: "py_round (real (length p) * ?l) 2 < 1024" by simp
  have "0 \<le> py_round (real (length p) * ?l) 2"
    using l by (intro py_round_nonneg) simp
  with up show ?thesis by (simp add: calculate_entropy_eq)
qed

text \<open>
  Claim C6, as amended. The estimator returns a crack time for every entropy below
  1024, and with it for the entropy of every password that the request model admits (at
  most 128 characters). From 1024 on it does not return: \<^verbatim>\<open>2**entropy\<close> raises
  \<^verbatim>\<open>OverflowError\<close>, and no millennia value is produced.
\<close>

theorem calculate_crack_time_total_below_1024:
  "(E < 1024 \<longrightarrow> (\<exists>ct. calculate_crack_time E = Inr ct))
   \<and> (1024 \<le> E \<longrightarrow> calculate_crack_time E = Inl OverflowError)
   \<and> (PasswordRequest_valid p \<longrightarrow>
        (\<exists>x ct. calculate_entropy U p = Inr x \<and> 0 \<le> x \<and> x < 1024
                \<and> calculate_crack_time x = Inr ct))"
proof -
  have a: "E < 1024 \<longrightarrow> (\<exists>ct. calculate_crack_time E = Inr ct)"
    by (simp add: calculate_crack_time_select)
  have b: "1024 \<le> E \<longrightarrow> calculate_crack_time E = Inl OverflowError"
    by (simp add: calculate_crack_time_overflow)
  have c: "PasswordRequest_valid p \<longrightarrow>
        (\<exists>x ct. calculate_entropy U p = Inr x \<and> 0 \<le> x \<and> x < 1024
                \<and> calculate_crack_time x = Inr ct)"
  proof
    assume "PasswordRequest_valid p"
    then obtain x where x: "calculate_entropy U p = Inr x" "0 \<le> x" "x < 1024"
      using valid_request_entropy by blast
    then show "\<exists>x ct. calculate_entropy U p = Inr x \<and> 0 \<le> x \<and> x < 1024
                \<and> calculate_crack_time x = Inr ct"
      using calculate_crack_time_select by blast
  qed
  from a b c show ?thesis by blast
qed

theorem calculate_crack_time_total_below_1024_witness:
  "(\<exists>ct. calculate_crack_time 0 = Inr ct)
   \<and> calculate_crack_time 4096 = Inl OverflowError
   \<and> PasswordRequest_valid (pystr_of ''aB1!'')
   \<and> (\<exists>x ct. calculate_entropy sample_tables (pystr_of ''aB1!'') = Inr x \<and> x < 1024
         \<and> calculate_crack_time x = Inr ct)"
  using calculate_crack_time_total_below_1024 [of 0 "pystr_of ''aB1!''" sample_tables]
    calculate_crack_time_total_below_1024 [of 4096 "pystr_of ''aB1!''" sample_tables]
  by (simp add: PasswordRequest_valid_def pystr_of_def) blast

text \<open>At the entropy 1024 the estimator fails instead of answering in millennia.\<close>

theorem calculate_crack_time_total_counterexample:
  "calculate_crack_time 1024 = Inl OverflowError"
  by (simp add: calculate_crack_time_def float_pow2_def)

subsection \<open>The evaluation, branch by branch\<close>

lemma evaluate_password_common_rank:
  assumes "is_common_password U w p = (True, w1)"
    and "get_password_rank U w1 p = (Some r, w2)"
  shows "evaluate_password U w p =
     (Inr \<lparr> strength = dictionary_strength, score = 0, entropy = 0, is_common = True,
            rank = Some r,
            crack_time = \<lparr> ct_value = 0, ct_unit = ''milisegundos'' \<rparr>,
            composition = analyze_composition U p,
            recommendation = projr (dictionary_recommendation (Some r)) \<rparr>, w2)"
  using assms
  by (simp add: evaluate_password_def calculate_entropy_eq crack_time_zero
      dictionary_recommendation_def Let_def)

lemma evaluate_password_common_no_rank:
  assumes "is_common_password U w p = (True, w1)"
    and "get_password_rank U w1 p = (None, w2)"
  shows "evaluate_password U w p = (Inl TypeError, w2)"
  using assms
  by (simp add: evaluate_password_def calculate_entropy_eq dictionary_recommendation_def)

lemma evaluate_password_not_common:
  assumes "is_common_password U w p = (False, w1)"
    and "calculate_entropy U p = Inr x" and "x < 1024"
  shows "evaluate_password U w p =
     (Inr \<lparr> strength = fst (get_strength_category x),
            score = fst (snd (get_strength_category x)),
            entropy = x, is_common = False, rank = None,
            crack_time = spec_select_band spec_band_table (spec_seconds x),
            composition = analyze_composition U p,
            recommendation = snd (snd (get_strength_category x)) \<rparr>, w1)"
  using assms
  by (simp add: evaluate_password_def calculate_crack_time_select Let_def split: prod.splits)

lemma evaluate_password_overflow:
  assumes "is_common_password U w p = (False, w1)"
    and "calculate_entropy U p = Inr x" and "1024 \<le> x"
  shows "evaluate_password U w p = (Inl OverflowError, w1)"
  using assms
  by (simp add: evaluate_password_def calculate_crack_time_overflow Let_def split: prod.splits)

lemma evaluate_password_TypeError_iff:
  "fst (evaluate_password U w p) = Inl TypeError \<longleftrightarrow>
     fst (is_common_password U w p)
     \<and> fst (get_password_rank U (snd (is_common_password U w p)) p) = None"
proof -
  obtain c w1 where c: "is_common_password U w p = (c, w1)" by (cases "is_common_password U w p")
  obtain rk w2 where rk: "get_password_rank U w1 p = (rk, w2)"
    by (cases "get_password_rank U w1 p")
  obtain x where x: "calculate_entropy U p = Inr x" using calculate_entropy_eq by blast
  show ?thesis
  proof (cases c)
    case True
    then show ?thesis
      using c rk evaluate_password_common_rank [of U w p w1 _ w2]
        evaluate_password_common_no_rank [of U w p w1 w2]
      by (cases rk) auto
  next
    case False
    then show ?thesis
      using c x evaluate_password_not_common [of U w p w1 x]
        evaluate_password_overflow [of U w p w1 x]
      by (cases "x < 1024") auto
  qed
qed

lemma password_valid: "PasswordRequest_valid (pystr_of ''password'')"
  by (simp add: PasswordRequest_valid_def pystr_of_def)

text \<open>
  Claim C10. When the membership check answers true and the rank lookup that follows
  answers none, \<^verbatim>\<open>evaluate_password\<close> raises \<^verbatim>\<open>TypeError\<close> while it formats the
  rank into the recommendation, and returns no evaluation; with a rank it returns one.
  \<^verbatim>\<open>TypeError\<close> is raised in no other case: the function is total in this respect
  exactly when a common password has a retrievable rank.
\<close>

theorem evaluate_password_needs_rank:
  "(fst (is_common_password U w p)
      \<and> fst (get_password_rank U (snd (is_common_password U w p)) p) = None
    \<longrightarrow> fst (evaluate_password U w p) = Inl TypeError)
   \<and> (fst (is_common_password U w p)
      \<and> fst (get_password_rank U (snd (is_common_password U w p)) p) = Some r
    \<longrightarrow> (\<exists>ev. fst (evaluate_password U w p) = Inr ev \<and> rank ev = Some r))
   \<and> (fst (evaluate_password U w p) = Inl TypeError \<longleftrightarrow>
        fst (is_common_password U w p)
        \<and> fst (get_password_rank U (snd (is_common_password U w p)) p) = None)
   \<and> dictionary_recommendation None = Inl TypeError"
proof -
  obtain c w1 where c: "is_common_password U w p = (c, w1)" by (cases "is_common_password U w p")
  obtain rk w2 where rk: "get_password_rank U w1 p = (rk, w2)"
    by (cases "get_password_rank U w1 p")
  have "c \<and> rk = Some r \<longrightarrow> (\<exists>ev. fst (evaluate_password U w p) = Inr ev \<and> rank ev = Some r)"
    using c rk evaluate_password_common_rank [of U w p w1 r w2] by auto
  then show ?thesis
    using c rk evaluate_password_TypeError_iff [of U w p]
    by (simp add: dictionary_recommendation_def)
qed

text \<open>
  The theorem on a started process that has memoised \<^verbatim>\<open>password\<close> as common and
  whose next query raises, and on one whose queries succeed.
\<close>

theorem evaluate_password_needs_rank_witness:
  "fst (is_common_password sample_tables
          (running_world [Some ''disk I/O error''] [(pystr_of ''password'', True)])
          (pystr_of ''password''))
   \<and> fst (evaluate_password sample_tables
          (running_world [Some ''disk I/O error''] [(pystr_of ''password'', True)])
          (pystr_of ''password'')) = Inl TypeError
   \<and> (\<exists>ev. fst (evaluate_password sample_tables (running_world [] []) (pystr_of ''password''))
            = Inr ev \<and> rank ev = Some 2)"
  using evaluate_password_needs_rank [of sample_tables
          "running_world [Some ''disk I/O error''] [(pystr_of ''password'', True)]"
          "pystr_of ''password''" 2]
     evaluate_password_needs_rank [of sample_tables "running_world [] []" "pystr_of ''password''" 2]
  by (simp add: is_common_password_def is_common_password_wrapped_def get_password_rank_def
      select_row_def next_fault_def running_world_def sample_db_def pystr_of_def
      sample_tables_simps)

text \<open>
  Claim C1, at an input where the code departs from it. The membership query finds
  \<^verbatim>\<open>password\<close> in the table; the rank query that follows raises and
  \<^verbatim>\<open>get_password_rank\<close> answers \<^verbatim>\<open>None\<close>; \<^verbatim>\<open>evaluate_password\<close> then raises
  \<^verbatim>\<open>TypeError\<close> instead of returning the overridden result, and the endpoint answers
  with status 500.
\<close>

theorem evaluate_password_common_without_rank:
  "map_of sample_db (str_lower sample_tables (pystr_of ''password'')) = Some 2
   \<and> fst (is_common_password sample_tables (running_world [None, Some ''disk I/O error''] [])
          (pystr_of ''password''))
   \<and> fst (evaluate_password sample_tables (running_world [None, Some ''disk I/O error''] [])
          (pystr_of ''password'')) = Inl TypeError
   \<and> fst (evaluate_password_endpoint sample_tables
          (running_world [None, Some ''disk I/O error''] []) (pystr_of ''password''))
       = InternalServerError"
proof -
  let ?w = "running_world [None, Some ''disk I/O error''] []"
  let ?p = "pystr_of ''password''"
  have a: "is_common_password sample_tables ?w ?p =
      (True, ?w\<lparr> db_faults := [Some ''disk I/O error''], lru := [(?p, True)], misses := 1 \<rparr>)"
    by (simp add: is_common_password_def is_common_password_wrapped_def
      select_row_def next_fault_def running_world_def sample_db_def pystr_of_def
      sample_tables_simps maxsize_def)
  have b: "get_password_rank sample_tables
       (?w\<lparr> db_faults := [Some ''disk I/O error''], lru := [(?p, True)], misses := 1 \<rparr>) ?p =
      (None, ?w\<lparr> db_faults := [], lru := [(?p, True)], misses := 1,
                 stdout := [RankError ''disk I/O error''] \<rparr>)"
    by (simp add: get_password_rank_def select_row_def next_fault_def running_world_def)
  have e: "evaluate_password sample_tables ?w ?p =
      (Inl TypeError, ?w\<lparr> db_faults := [], lru := [(?p, True)], misses := 1,
                 stdout := [RankError ''disk I/O error''] \<rparr>)"
    using evaluate_password_common_no_rank [OF a b] .
  have t: "map_of sample_db (str_lower sample_tables ?p) = Some 2"
    by (simp add: sample_db_def pystr_of_def sample_tables_simps)
  show ?thesis using a e t password_valid by (simp add: evaluate_password_endpoint_def)
qed

text \<open>
  When the rank is there, the result of a common password is the overridden one: the
  dictionary label, score 0, entropy 0.0, the crack time of the entropy 0.0 (in
  milliseconds) and a recommendation that names the rank.
\<close>

theorem evaluate_password_dictionary_override:
  assumes "is_common_password U w p = (True, w1)"
    and "get_password_rank U w1 p = (Some r, w2)"
  shows "\<exists>ev. evaluate_password U w p = (Inr ev, w2)
      \<and> strength ev = dictionary_strength \<and> score ev = 0 \<and> entropy ev = 0
      \<and> is_common ev \<and> rank ev = Some r
      \<and> crack_time ev = \<lparr> ct_value = 0, ct_unit = ''milisegundos'' \<rparr>
      \<and> calculate_crack_time 0 = Inr (crack_time ev)
      \<and> composition ev = analyze_composition U p
      \<and> dictionary_recommendation (Some r) = Inr (recommendation ev)
      \<and> recommendation ev =
          ''Esta contrase'' @ [CHR 0xF1] @ ''a est'' @ [CHR 0xE1] @ '' en el puesto #''
          @ format_thousands r @ '' de las m'' @ [CHR 0xE1] @ ''s comunes. ''
          @ ''Es extremadamente predecible. C'' @ [CHR 0xE1] @ ''mbiala inmediatamente.''"
  using evaluate_password_common_rank [OF assms]
  by (simp add: dictionary_recommendation_def crack_time_zero)

lemma format_thousands_millions: "format_thousands 1234567 = ''1,234,567''"
  by (simp add: format_thousands_def digit_char_def)

lemma format_thousands_two: "format_thousands 2 = ''2''"
  by (simp add: format_thousands_def digit_char_def)

lemma format_thousands_thousand: "format_thousands 999 = ''999'' \<and> format_thousands 1000 = ''1,000''"
  by (simp add: format_thousands_def digit_char_def)

theorem evaluate_password_dictionary_override_witness:
  "\<exists>ev. fst (evaluate_password sample_tables (running_world [] []) (pystr_of ''password'')) = Inr ev
      \<and> score ev = 0 \<and> entropy ev = 0 \<and> rank ev = Some 2
      \<and> ct_unit (crack_time ev) = ''milisegundos''
      \<and> recommendation ev =
          ''Esta contrase'' @ [CHR 0xF1] @ ''a est'' @ [CHR 0xE1] @ '' en el puesto #2''
          @ '' de las m'' @ [CHR 0xE1] @ ''s comunes. ''
          @ ''Es extremadamente predecible. C'' @ [CHR 0xE1] @ ''mbiala inmediatamente.''"
proof -
  let ?p = "pystr_of ''password''"
  let ?w = "running_world [] []"
  have a: "is_common_password sample_tables ?w ?p
      = (True, ?w\<lparr> lru := [(?p, True)], misses := 1 \<rparr>)"
    by (simp add: is_common_password_def is_common_password_wrapped_def select_row_def
        next_fault_def running_world_def sample_db_def pystr_of_def sample_tables_simps
        maxsize_def)
  have b: "get_password_rank sample_tables (?w\<lparr> lru := [(?p, True)], misses := 1 \<rparr>) ?p
      = (Some 2, ?w\<lparr> lru := [(?p, True)], misses := 1 \<rparr>)"
    by (simp add: get_password_rank_def select_row_def next_fault_def running_world_def
        sample_db_def pystr_of_def sample_tables_simps)
  from evaluate_password_dictionary_override [OF a b] show ?thesis
    by (auto simp: format_thousands_def digit_char_def)
qed

subsection \<open>The memo table\<close>

lemma wrapped_keeps_lru [simp]: "lru (snd (is_common_password_wrapped U w p)) = lru w"
  by (simp add: is_common_password_wrapped_def select_row_def next_fault_def
      split: option.splits list.splits sum.splits prod.splits)

lemma wrapped_healthy:
  assumes "healthy w conn"
  shows "is_common_password_wrapped U w p = (store_member U conn p, w)"
  using assms
  by (simp add: healthy_def is_common_password_wrapped_def select_row_def next_fault_def
      store_member_def)

lemma get_password_rank_healthy:
  assumes "healthy w conn"
  shows "get_password_rank U w p = (map_of conn (str_lower U p), w)"
  using assms
  by (simp add: healthy_def get_password_rank_def select_row_def next_fault_def)

lemma get_password_rank_keeps_lru: "lru (snd (get_password_rank U w p)) = lru w"
  by (simp add: get_password_rank_def select_row_def next_fault_def
      split: option.splits list.splits sum.splits prod.splits)

lemma is_common_password_hit:
  assumes "map_of (lru w) p = Some r"
  shows "is_common_password U w p =
     (r, w\<lparr> lru := (p, r) # filter (\<lambda>kv. fst kv \<noteq> p) (lru w), hits := hits w + 1 \<rparr>)"
  using assms by (simp add: is_common_password_def)

lemma is_common_password_miss:
  assumes "map_of (lru w) p = None"
  shows "is_common_password U w p =
     (fst (is_common_password_wrapped U w p),
      (snd (is_common_password_wrapped U w p))
        \<lparr> lru := take maxsize ((p, fst (is_common_password_wrapped U w p)) # lru w),
          misses := misses (snd (is_common_password_wrapped U w p)) + 1 \<rparr>)"
proof -
  obtain r w' where b: "is_common_password_wrapped U w p = (r, w')"
    by (cases "is_common_password_wrapped U w p")
  then have "lru w' = lru w" using wrapped_keeps_lru [of U w p] by simp
  then show ?thesis using assms b by (simp add: is_common_password_def)
qed

lemma filter_key_shorter:
  assumes "map_of xs p = Some r"
  shows "length (filter (\<lambda>kv. fst kv \<noteq> p) xs) < length xs"
proof -
  from assms have "(p, r) \<in> set xs" by (rule map_of_SomeD)
  then show ?thesis by (rule length_filter_less) simp
qed

lemma lru_capacity:
  assumes "length (lru w) \<le> maxsize"
  shows "length (lru (snd (is_common_password U w p))) \<le> maxsize"
proof (cases "map_of (lru w) p")
  case None
  then show ?thesis by (simp add: is_common_password_miss)
next
  case (Some r)
  then show ?thesis using assms filter_key_shorter [OF Some] by (simp add: is_common_password_hit)
qed

lemma lru_front:
  "lru (snd (is_common_password U w p)) \<noteq> []
   \<and> hd (lru (snd (is_common_password U w p))) = (p, fst (is_common_password U w p))"
proof (cases "map_of (lru w) p")
  case None
  then show ?thesis by (simp add: is_common_password_miss maxsize_def)
next
  case (Some r)
  then show ?thesis by (simp add: is_common_password_hit)
qed

lemma lru_evicts_last:
  assumes "map_of (lru w) p = None" and "length (lru w) = maxsize"
  shows "lru (snd (is_common_password U w p)) = (p, fst (is_common_password U w p)) # butlast (lru w)"
proof -
  have "take maxsize ((p, r) # lru w) = (p, r) # butlast (lru w)" for r
    using assms(2) by (simp add: maxsize_def butlast_conv_take take_Cons')
  then show ?thesis using assms(1) by (simp add: is_common_password_miss)
qed

lemma lru_keeps_all:
  assumes "map_of (lru w) p = None" and "length (lru w) < maxsize"
  shows "lru (snd (is_common_password U w p)) = (p, fst (is_common_password U w p)) # lru w"
  using assms by (simp add: is_common_password_miss)

lemma cache_sound_filter: "cache_sound U conn xs \<Longrightarrow> cache_sound U conn (filter P xs)"
  by (simp add: cache_sound_def list_all_iff)

lemma cache_sound_take: "cache_sound U conn xs \<Longrightarrow> cache_sound U conn (take n xs)"
  by (auto simp: cache_sound_def list_all_iff dest: in_set_takeD)

lemma cache_sound_lookup:
  assumes "cache_sound U conn xs" and "map_of xs p = Some r"
  shows "r = store_member U conn p"
proof -
  from assms(2) have "(p, r) \<in> set xs" by (rule map_of_SomeD)
  with assms(1) show ?thesis by (auto simp: cache_sound_def list_all_iff)
qed

lemma transparent_step:
  assumes "healthy w conn" and "cache_sound U conn (lru w)"
  shows "fst (is_common_password U w p) = store_member U conn p
       \<and> healthy (snd (is_common_password U w p)) conn
       \<and> cache_sound U conn (lru (snd (is_common_password U w p)))"
proof (cases "map_of (lru w) p")
  case None
  have "cache_sound U conn ((p, store_member U conn p) # lru w)"
    using assms(2) by (simp add: cache_sound_def)
  then have "cache_sound U conn (take maxsize ((p, store_member U conn p) # lru w))"
    by (rule cache_sound_take)
  then show ?thesis
    using None assms(1) by (simp add: is_common_password_miss wrapped_healthy healthy_def)
next
  case (Some r)
  have r: "r = store_member U conn p" using cache_sound_lookup [OF assms(2) Some] .
  have "cache_sound U conn ((p, r) # filter (\<lambda>kv. fst kv \<noteq> p) (lru w))"
    using assms(2) r cache_sound_filter [of U conn "lru w"] by (simp add: cache_sound_def)
  then show ?thesis
    using Some assms(1) r by (simp add: is_common_password_hit healthy_def)
qed

lemma transparent_run:
  assumes "healthy w conn" and "cache_sound U conn (lru w)"
  shows "fst (run_queries U w ps) = map (store_member U conn) ps"
  using assms
proof (induction ps arbitrary: w)
  case Nil
  then show ?case by simp
next
  case (Cons p ps)
  obtain r w' where s: "is_common_password U w p = (r, w')" by (cases "is_common_password U w p")
  have t: "r = store_member U conn p" "healthy w' conn" "cache_sound U conn (lru w')"
    using transparent_step [OF Cons.prems, of p] s by simp_all
  have "fst (run_queries U w' ps) = map (store_member U conn) ps"
    using Cons.IH [OF t(2) t(3)] .
  then show ?case using s t(1) by (cases "run_queries U w' ps") simp
qed

text \<open>
  Claim C7, as amended. The memo table in front of the membership query holds at most
  10000 entries and is least-recently-used: the key of a call becomes the most recent
  one, and a miss on a full table drops the last, least recently used entry. The key is
  the password as it was passed, not its lower-cased form. While the store is connected
  and no query raises, the table is transparent: a memoised answer is the answer of the
  store, this stays so after every call, and a sequence of queries gets the store's
  answer for each, whatever was evicted in between. The rank query does not go through
  the memo table.
\<close>

theorem membership_cache_lru:
  "maxsize = 10000
   \<and> (length (lru w) \<le> maxsize \<longrightarrow>
        length (lru (snd (is_common_password U w p))) \<le> maxsize)
   \<and> hd (lru (snd (is_common_password U w p))) = (p, fst (is_common_password U w p))
   \<and> (map_of (lru w) p = None \<and> length (lru w) = maxsize \<longrightarrow>
        lru (snd (is_common_password U w p))
          = (p, fst (is_common_password U w p)) # butlast (lru w))
   \<and> (map_of (lru w) p = None \<and> length (lru w) < maxsize \<longrightarrow>
        lru (snd (is_common_password U w p)) = (p, fst (is_common_password U w p)) # lru w)
   \<and> (map_of (lru w) p = Some r \<longrightarrow>
        fst (is_common_password U w p) = r
        \<and> lru (snd (is_common_password U w p))
            = (p, r) # filter (\<lambda>kv. fst kv \<noteq> p) (lru w))
   \<and> (healthy w conn \<and> cache_sound U conn (lru w) \<longrightarrow>
        fst (is_common_password U w p) = fst (is_common_password_wrapped U w p)
        \<and> fst (is_common_password U w p) = store_member U conn p
        \<and> healthy (snd (is_common_password U w p)) conn
        \<and> cache_sound U conn (lru (snd (is_common_password U w p)))
        \<and> fst (run_queries U w ps) = map (store_member U conn) ps)
   \<and> cache_sound U conn []
   \<and> lru (snd (get_password_rank U w p)) = lru w"
proof -
  have a: "length (lru w) \<le> maxsize \<longrightarrow>
        length (lru (snd (is_common_password U w p))) \<le> maxsize"
    using lru_capacity by blast
  have b: "hd (lru (snd (is_common_password U w p))) = (p, fst (is_common_password U w p))"
    using lru_front by blast
  have c: "map_of (lru w) p = None \<and> length (lru w) = maxsize \<longrightarrow>
        lru (snd (is_common_password U w p))
          = (p, fst (is_common_password U w p)) # butlast (lru w)"
    using lru_evicts_last by blast
  have d: "map_of (lru w) p = None \<and> length (lru w) < maxsize \<longrightarrow>
        lru (snd (is_common_password U w p)) = (p, fst (is_common_password U w p)) # lru w"
    using lru_keeps_all by blast
  have e: "map_of (lru w) p = Some r \<longrightarrow>
        fst (is_common_password U w p) = r
        \<and> lru (snd (is_common_password U w p))
            = (p, r) # filter (\<lambda>kv. fst kv \<noteq> p) (lru w)"
    by (simp add: is_common_password_hit)
  have f: "healthy w conn \<and> cache_sound U conn (lru w) \<longrightarrow>
        fst (is_common_password U w p) = fst (is_common_password_wrapped U w p)
        \<and> fst (is_common_password U w p) = store_member U conn p
        \<and> healthy (snd (is_common_password U w p)) conn
        \<and> cache_sound U conn (lru (snd (is_common_password U w p)))
        \<and> fst (run_queries U w ps) = map (store_member U conn) ps"
    using transparent_step [of w conn U p] transparent_run [of w conn U ps]
      wrapped_healthy [of w conn U p] by simp
  have g: "cache_sound U conn []" by (simp add: cache_sound_def)
  have h: "lru (snd (get_password_rank U w p)) = lru w" by (rule get_password_rank_keeps_lru)
  have m: "maxsize = 10000" by (simp add: maxsize_def)
  show ?thesis using m a b c d e f g h by (intro conjI) assumption+
qed

lemma full_memo_length: "length full_memo = maxsize"
  by (simp add: full_memo_def maxsize_def)

lemma full_memo_zero: "map_of full_memo [0] = None"
  by (auto simp: full_memo_def map_of_eq_None_iff pystr_of_def image_iff)

lemma full_memo_sound: "cache_sound sample_tables sample_db full_memo"
  by (simp add: cache_sound_def full_memo_def list_all_iff store_member_def sample_db_def
      pystr_of_def sample_tables_simps)

lemma full_memo_butlast: "butlast full_memo = map (\<lambda>i. ([i], False)) [1..<10000]"
  by (simp add: full_memo_def)

lemma sample_db_members:
  "store_member sample_tables sample_db [0] = False"
  "store_member sample_tables sample_db (pystr_of ''password'') = True"
  by (simp_all add: store_member_def sample_db_def pystr_of_def sample_tables_simps)

text \<open>
  The theorem on a full table whose least recently used key is \<^verbatim>\<open>password\<close>: a
  query for another key evicts it, and the next query for \<^verbatim>\<open>password\<close> is answered
  as before.
\<close>

theorem membership_cache_lru_witness:
  "length (lru (running_world [] full_memo)) = maxsize
   \<and> healthy (running_world [] full_memo) sample_db
   \<and> cache_sound sample_tables sample_db (lru (running_world [] full_memo))
   \<and> map_of (lru (running_world [] full_memo)) [0] = None
   \<and> lru (snd (is_common_password sample_tables (running_world [] full_memo) [0]))
       = ([0], False) # map (\<lambda>i. ([i], False)) [1..<10000]
   \<and> fst (run_queries sample_tables (running_world [] full_memo) [[0], pystr_of ''password''])
       = [False, True]"
proof -
  let ?w = "running_world [] full_memo"
  have h1: "length (lru ?w) = maxsize" by (simp add: running_world_def full_memo_length)
  have h2: "healthy ?w sample_db" by (simp add: running_world_def healthy_def)
  have h3: "cache_sound sample_tables sample_db (lru ?w)"
    by (simp add: running_world_def full_memo_sound)
  have h4: "map_of (lru ?w) [0] = None" by (simp add: running_world_def full_memo_zero)
  note T = membership_cache_lru [of ?w sample_tables "[0]" True sample_db
      "[[0], pystr_of ''password'']"]
  from T h2 h3 have "fst (is_common_password sample_tables ?w [0])
      = store_member sample_tables sample_db [0]"
    and "fst (run_queries sample_tables ?w [[0], pystr_of ''password''])
      = map (store_member sample_tables sample_db) [[0], pystr_of ''password'']"
    by blast+
  then have r: "fst (is_common_password sample_tables ?w [0]) = False"
    and q: "fst (run_queries sample_tables ?w [[0], pystr_of ''password'']) = [False, True]"
    by (simp_all only: sample_db_members list.map)
  from T h1 h4 have "lru (snd (is_common_password sample_tables ?w [0]))
      = ([0], fst (is_common_password sample_tables ?w [0])) # butlast (lru ?w)"
    by blast
  with r have "lru (snd (is_common_password sample_tables ?w [0]))
      = ([0], False) # butlast (lru ?w)"
    by simp
  then have e: "lru (snd (is_common_password sample_tables ?w [0]))
       = ([0], False) # map (\<lambda>i. ([i], False)) [1..<10000]"
    by (simp add: running_world_def full_memo_butlast)
  from h1 h2 h3 h4 e q show ?thesis by (intro conjI) assumption+
qed

text \<open>
  The claim as it was stated has the key lower-cased. After a query for
  \<^verbatim>\<open>Password\<close> the table holds that spelling only, and a query for \<^verbatim>\<open>password\<close>
  is a second miss.
\<close>

theorem membership_cache_key_counterexample:
  "str_lower sample_tables (pystr_of ''Password'') = pystr_of ''password''
   \<and> lru (snd (is_common_password sample_tables (running_world [] []) (pystr_of ''Password'')))
       = [(pystr_of ''Password'', True)]
   \<and> map_of (lru (snd (is_common_password sample_tables (running_world [] [])
                          (pystr_of ''Password''))))
        (pystr_of ''password'') = None
   \<and> misses (snd (is_common_password sample_tables
                (snd (is_common_password sample_tables (running_world [] [])
                       (pystr_of ''Password'')))
                (pystr_of ''password''))) = 2
   \<and> hits (snd (is_common_password sample_tables
                (snd (is_common_password sample_tables (running_world [] [])
                       (pystr_of ''Password'')))
                (pystr_of ''password''))) = 0"
proof -
  let ?w = "running_world [] []"
  have l: "str_lower sample_tables (pystr_of ''Password'') = pystr_of ''password''"
    by (simp add: pystr_of_def sample_tables_simps)
  have a: "is_common_password sample_tables ?w (pystr_of ''Password'')
      = (True, ?w\<lparr> lru := [(pystr_of ''Password'', True)], misses := 1 \<rparr>)"
    by (simp add: is_common_password_def is_common_password_wrapped_def select_row_def
        next_fault_def running_world_def sample_db_def pystr_of_def sample_tables_simps
        maxsize_def)
  have b: "is_common_password sample_tables
        (?w\<lparr> lru := [(pystr_of ''Password'', True)], misses := 1 \<rparr>) (pystr_of ''password'')
      = (True, ?w\<lparr> lru := [(pystr_of ''password'', True), (pystr_of ''Password'', True)],
                     misses := 2 \<rparr>)"
    by (simp add: is_common_password_def is_common_password_wrapped_def select_row_def
        next_fault_def running_world_def sample_db_def pystr_of_def sample_tables_simps
        maxsize_def)
  have a': "snd (is_common_password sample_tables ?w (pystr_of ''Password''))
      = ?w\<lparr> lru := [(pystr_of ''Password'', True)], misses := 1 \<rparr>"
    using a by simp
  have b': "snd (is_common_password sample_tables
        (?w\<lparr> lru := [(pystr_of ''Password'', True)], misses := 1 \<rparr>) (pystr_of ''password''))
      = ?w\<lparr> lru := [(pystr_of ''password'', True), (pystr_of ''Password'', True)],
                     misses := 2 \<rparr>"
    using b by simp
  show ?thesis unfolding a' b' using l by (simp add: running_world_def pystr_of_def)
qed

subsection \<open>Start-up\<close>

lemma init_database_result:
  "fst (init_database w) \<longleftrightarrow>
     db_file w \<noteq> None \<and> fst (next_fault w) = None
     \<and> fst (next_fault ((snd (next_fault w))\<lparr> DB_CONNECTION := db_file w \<rparr>)) = None"
  by (auto simp: init_database_def Let_def split: option.splits prod.splits)

lemma init_database_connection:
  assumes "fst (init_database w)"
  shows "DB_CONNECTION (snd (init_database w)) = db_file w \<and> db_file w \<noteq> None"
  using assms
  by (auto simp: init_database_def Let_def next_fault_def split: option.splits prod.splits list.splits)

lemma run_app_failed:
  assumes "\<not> fst (init_database w)"
  shows "run_app U w requests =
     (Inl RuntimeError,
      (snd (init_database w))\<lparr> stdout := stdout (snd (init_database w)) @ [StartupFailed] \<rparr>)"
  using assms by (cases "init_database w") (simp add: run_app_def lifespan_startup_def)

lemma run_app_started:
  assumes "fst (init_database w)"
  shows "fst (run_app U w requests) = Inr (fst (serve U (snd (init_database w)) requests))"
  using assms
  by (cases "init_database w")
     (simp add: run_app_def lifespan_startup_def split: prod.splits)

lemma wrapped_unconnected:
  assumes "DB_CONNECTION w = None"
  shows "is_common_password_wrapped U w p = (False, w)"
  using assms by (simp add: is_common_password_wrapped_def)

lemma evaluate_password_unconnected:
  assumes "DB_CONNECTION w = None" and "map_of (lru w) p = None"
    and "calculate_entropy U p = Inr x" and "x < 1024"
  shows "\<exists>ev. evaluate_password U w p
          = (Inr ev, w\<lparr> lru := take maxsize ((p, False) # lru w), misses := misses w + 1 \<rparr>)
        \<and> \<not> is_common ev \<and> rank ev = None"
proof -
  have "is_common_password U w p
      = (False, w\<lparr> lru := take maxsize ((p, False) # lru w), misses := misses w + 1 \<rparr>)"
    using assms(1,2) by (simp add: is_common_password_miss wrapped_unconnected)
  from evaluate_password_not_common [OF this assms(3,4)] show ?thesis by simp
qed

lemma init_database_faults:
  "fst (init_database w) \<longleftrightarrow>
     db_file w \<noteq> None \<and> list_all (\<lambda>f. f = None) (take 2 (db_faults w))"
  by (auto simp: init_database_def Let_def next_fault_def take_Suc_conv_app_nth numeral_2_eq_2
      split: option.splits prod.splits list.splits)

lemma init_database_no_file:
  assumes "db_file w = None"
  shows "init_database w = (False, w\<lparr> stdout := stdout w @ [DbFileNotFound] \<rparr>)"
  using assms by (simp add: init_database_def)

lemma init_database_connect_raises:
  assumes "db_file w = Some db" and "db_faults w = Some e # fs"
  shows "init_database w
     = (False, w\<lparr> db_faults := fs, stdout := stdout w @ [DbConnectError e] \<rparr>)"
  using assms by (simp add: init_database_def next_fault_def)

lemma init_database_count_raises:
  assumes "db_file w = Some db" and "db_faults w = None # Some e # fs"
  shows "init_database w
     = (False, w\<lparr> db_faults := fs, DB_CONNECTION := Some db,
                   stdout := stdout w @ [DbConnectError e] \<rparr>)"
  using assms by (simp add: init_database_def next_fault_def Let_def)

lemma init_database_succeeds:
  assumes "db_file w = Some db" and "list_all (\<lambda>f. f = None) (take 2 (db_faults w))"
  shows "init_database w
     = (True, w\<lparr> db_faults := drop 2 (db_faults w), DB_CONNECTION := Some db,
                  stdout := stdout w @ [DbConnected (int (length db))] \<rparr>)"
  using assms
  by (auto simp: init_database_def next_fault_def Let_def numeral_2_eq_2
      split: list.splits option.splits)

lemma unconnected_membership:
  assumes "DB_CONNECTION w = None" and "map_of (lru w) p \<noteq> Some True"
  shows "\<not> fst (is_common_password U w p)
       \<and> stdout (snd (is_common_password U w p)) = stdout w
       \<and> DB_CONNECTION (snd (is_common_password U w p)) = None
       \<and> db_faults (snd (is_common_password U w p)) = db_faults w"
proof (cases "map_of (lru w) p")
  case None
  then show ?thesis using assms(1)
    by (simp add: is_common_password_miss wrapped_unconnected)
next
  case (Some r)
  then show ?thesis using assms by (simp add: is_common_password_hit)
qed

lemma all_false_no_true:
  assumes "list_all (\<lambda>kv. \<not> snd kv) xs"
  shows "map_of xs p \<noteq> Some True"
proof
  assume "map_of xs p = Some True"
  then have "(p, True) \<in> set xs" by (rule map_of_SomeD)
  with assms show False by (auto simp: list_all_iff)
qed

lemma unconnected_memo_stays_false:
  assumes "DB_CONNECTION w = None" and "list_all (\<lambda>kv. \<not> snd kv) (lru w)"
  shows "list_all (\<lambda>kv. \<not> snd kv) (lru (snd (is_common_password U w p)))"
proof (cases "map_of (lru w) p")
  case None
  have "list_all (\<lambda>kv. \<not> snd kv) ((p, False) # lru w)"
    using assms(2) by simp
  then have "list_all (\<lambda>kv. \<not> snd kv) (take maxsize ((p, False) # lru w))"
    unfolding list_all_iff by (meson in_set_takeD)
  then show ?thesis using None assms(1)
    by (simp add: is_common_password_miss wrapped_unconnected)
next
  case (Some r)
  have "\<not> r" using all_false_no_true [OF assms(2), of p] Some by auto
  then show ?thesis using Some assms(2)
    by (simp add: is_common_password_hit list_all_iff)
qed

lemma evaluate_password_when_not_common:
  assumes "\<not> fst (is_common_password U w p)"
  shows "snd (evaluate_password U w p) = snd (is_common_password U w p)
       \<and> fst (evaluate_password U w p) =
           (case calculate_entropy U p of
              Inl e \<Rightarrow> Inl e
            | Inr x \<Rightarrow>
                if x < 1024 then
                  Inr \<lparr> strength = fst (get_strength_category x),
                        score = fst (snd (get_strength_category x)),
                        entropy = x, is_common = False, rank = None,
                        crack_time = spec_select_band spec_band_table (spec_seconds x),
                        composition = analyze_composition U p,
                        recommendation = snd (snd (get_strength_category x)) \<rparr>
                else Inl OverflowError)"
proof -
  obtain w1 where c: "is_common_password U w p = (False, w1)"
    using assms by (cases "is_common_password U w p") simp
  obtain x where x: "calculate_entropy U p = Inr x" using calculate_entropy_eq by blast
  show ?thesis
  proof (cases "x < 1024")
    case True
    then show ?thesis using evaluate_password_not_common [OF c x] c x by simp
  next
    case False
    then show ?thesis using evaluate_password_overflow [OF c x] c x by simp
  qed
qed

text \<open>
  Claim C8, as amended. \<^verbatim>\<open>init_database\<close> succeeds exactly when the file exists
  and neither connecting nor counting the rows raises; in each of the three other cases
  it answers \<^verbatim>\<open>False\<close>. When it fails, start-up raises \<^verbatim>\<open>RuntimeError\<close> and the
  application serves no request; when it succeeds the connection is set before the first
  request. The evaluation itself has no such check: called while no connection is set,
  for any password that is not memoised as common, it reports the password as not common,
  without a rank and without printing anything, and in a process that never connected
  no password is ever memoised as common.
\<close>

theorem startup_failure_is_fatal:
  "(\<not> fst (init_database w) \<longrightarrow>
      run_app U w requests =
        (Inl RuntimeError,
         (snd (init_database w))\<lparr> stdout := stdout (snd (init_database w)) @ [StartupFailed] \<rparr>))
   \<and> (db_file w = None \<longrightarrow> \<not> fst (init_database w))
   \<and> (fst (init_database w) \<longrightarrow>
        DB_CONNECTION (snd (init_database w)) = db_file w \<and> db_file w \<noteq> None
        \<and> fst (run_app U w requests) = Inr (fst (serve U (snd (init_database w)) requests)))
   \<and> (DB_CONNECTION w = None \<and> map_of (lru w) p = None \<and> PasswordRequest_valid p \<longrightarrow>
        (\<exists>ev. evaluate_password U w p
            = (Inr ev, w\<lparr> lru := take maxsize ((p, False) # lru w), misses := misses w + 1 \<rparr>)
          \<and> \<not> is_common ev \<and> rank ev = None))
   \<and> (fst (init_database w) \<longleftrightarrow>
        db_file w \<noteq> None \<and> fst (next_fault w) = None
        \<and> fst (next_fault ((snd (next_fault w))\<lparr> DB_CONNECTION := db_file w \<rparr>)) = None)
   \<and> (fst (init_database w) \<longleftrightarrow>
        db_file w \<noteq> None \<and> list_all (\<lambda>f. f = None) (take 2 (db_faults w)))
   \<and> (db_file w = None \<longrightarrow>
        init_database w = (False, w\<lparr> stdout := stdout w @ [DbFileNotFound] \<rparr>))
   \<and> (db_file w = Some db \<and> db_faults w = Some e # fs \<longrightarrow>
        init_database w
          = (False, w\<lparr> db_faults := fs, stdout := stdout w @ [DbConnectError e] \<rparr>))
   \<and> (db_file w = Some db \<and> db_faults w = None # Some e # fs \<longrightarrow>
        init_database w
          = (False, w\<lparr> db_faults := fs, DB_CONNECTION := Some db,
                        stdout := stdout w @ [DbConnectError e] \<rparr>))
   \<and> (db_file w = Some db \<and> list_all (\<lambda>f. f = None) (take 2 (db_faults w)) \<longrightarrow>
        init_database w
          = (True, w\<lparr> db_faults := drop 2 (db_faults w), DB_CONNECTION := Some db,
                       stdout := stdout w @ [DbConnected (int (length db))] \<rparr>))
   \<and> (DB_CONNECTION w = None \<and> map_of (lru w) p \<noteq> Some True \<longrightarrow>
        \<not> fst (is_common_password U w p)
        \<and> stdout (snd (evaluate_password U w p)) = stdout w
        \<and> DB_CONNECTION (snd (evaluate_password U w p)) = None
        \<and> fst (evaluate_password U w p) =
            (case calculate_entropy U p of
               Inl e \<Rightarrow> Inl e
             | Inr x \<Rightarrow>
                 if x < 1024 then
                   Inr \<lparr> strength = fst (get_strength_category x),
                         score = fst (snd (get_strength_category x)),
                         entropy = x, is_common = False, rank = None,
                         crack_time = spec_select_band spec_band_table (spec_seconds x),
                         composition = analyze_composition U p,
                         recommendation = snd (snd (get_strength_category x)) \<rparr>
                 else Inl OverflowError))
   \<and> (DB_CONNECTION w = None \<and> list_all (\<lambda>kv. \<not> snd kv) (lru w) \<longrightarrow>
        map_of (lru w) p \<noteq> Some True
        \<and> list_all (\<lambda>kv. \<not> snd kv) (lru (snd (evaluate_password U w p))))"
proof -
  have a: "\<not> fst (init_database w) \<longrightarrow>
      run_app U w requests =
        (Inl RuntimeError,
         (snd (init_database w))\<lparr> stdout := stdout (snd (init_database w)) @ [StartupFailed] \<rparr>)"
    using run_app_failed by blast
  have b: "db_file w = None \<longrightarrow> \<not> fst (init_database w)"
    by (simp add: init_database_result)
  have c: "fst (init_database w) \<longrightarrow>
        DB_CONNECTION (snd (init_database w)) = db_file w \<and> db_file w \<noteq> None
        \<and> fst (run_app U w requests) = Inr (fst (serve U (snd (init_database w)) requests))"
    using init_database_connection [of w] run_app_started [of w U requests] by blast
  have d: "DB_CONNECTION w = None \<and> map_of (lru w) p = None \<and> PasswordRequest_valid p \<longrightarrow>
        (\<exists>ev. evaluate_password U w p
            = (Inr ev, w\<lparr> lru := take maxsize ((p, False) # lru w), misses := misses w + 1 \<rparr>)
          \<and> \<not> is_common ev \<and> rank ev = None)"
    using valid_request_entropy [of p U] evaluate_password_unconnected [of w p U] by blast
  have e: "fst (init_database w) \<longleftrightarrow>
        db_file w \<noteq> None \<and> fst (next_fault w) = None
        \<and> fst (next_fault ((snd (next_fault w))\<lparr> DB_CONNECTION := db_file w \<rparr>)) = None"
    by (rule init_database_result)
  have f: "fst (init_database w) \<longleftrightarrow>
        db_file w \<noteq> None \<and> list_all (\<lambda>f. f = None) (take 2 (db_faults w))"
    by (rule init_database_faults)
  have g: "db_file w = None \<longrightarrow>
        init_database w = (False, w\<lparr> stdout := stdout w @ [DbFileNotFound] \<rparr>)"
    using init_database_no_file by blast
  have h: "db_file w = Some db \<and> db_faults w = Some e # fs \<longrightarrow>
        init_database w
          = (False, w\<lparr> db_faults := fs, stdout := stdout w @ [DbConnectError e] \<rparr>)"
    using init_database_connect_raises by blast
  have i: "db_file w = Some db \<and> db_faults w = None # Some e # fs \<longrightarrow>
        init_database w
          = (False, w\<lparr> db_faults := fs, DB_CONNECTION := Some db,
                        stdout := stdout w @ [DbConnectError e] \<rparr>)"
    using init_database_count_raises by blast
  have j: "db_file w = Some db \<and> list_all (\<lambda>f. f = None) (take 2 (db_faults w)) \<longrightarrow>
        init_database w
          = (True, w\<lparr> db_faults := drop 2 (db_faults w), DB_CONNECTION := Some db,
                       stdout := stdout w @ [DbConnected (int (length db))] \<rparr>)"
    using init_database_succeeds by blast
  have k: "DB_CONNECTION w = None \<and> map_of (lru w) p \<noteq> Some True \<longrightarrow>
        \<not> fst (is_common_password U w p)
        \<and> stdout (snd (evaluate_password U w p)) = stdout w
        \<and> DB_CONNECTION (snd (evaluate_password U w p)) = None
        \<and> fst (evaluate_password U w p) =
            (case calculate_entropy U p of
               Inl e \<Rightarrow> Inl e
             | Inr x \<Rightarrow>
                 if x < 1024 then
                   Inr \<lparr> strength = fst (get_strength_category x),
                         score = fst (snd (get_strength_category x)),
                         entropy = x, is_common = False, rank = None,
                         crack_time = spec_select_band spec_band_table (spec_seconds x),
                         composition = analyze_composition U p,
                         recommendation = snd (snd (get_strength_category x)) \<rparr>
                 else Inl OverflowError)"
  proof
    assume u: "DB_CONNECTION w = None \<and> map_of (lru w) p \<noteq> Some True"
    then have m: "\<not> fst (is_common_password U w p)"
      "stdout (snd (is_common_password U w p)) = stdout w"
      "DB_CONNECTION (snd (is_common_password U w p)) = None"
      using unconnected_membership [of w p U] by simp_all
    from evaluate_password_when_not_common [OF m(1)] m
    show "\<not> fst (is_common_password U w p)
        \<and> stdout (snd (evaluate_password U w p)) = stdout w
        \<and> DB_CONNECTION (snd (evaluate_password U w p)) = None
        \<and> fst (evaluate_password U w p) =
            (case calculate_entropy U p of
               Inl e \<Rightarrow> Inl e
             | Inr x \<Rightarrow>
                 if x < 1024 then
                   Inr \<lparr> strength = fst (get_strength_category x),
                         score = fst (snd (get_strength_category x)),
                         entropy = x, is_common = False, rank = None,
                         crack_time = spec_select_band spec_band_table (spec_seconds x),
                         composition = analyze_composition U p,
                         recommendation = snd (snd (get_strength_category x)) \<rparr>
                 else Inl OverflowError)"
      by simp
  qed
  have l: "DB_CONNECTION w = None \<and> list_all (\<lambda>kv. \<not> snd kv) (lru w) \<longrightarrow>
        map_of (lru w) p \<noteq> Some True
        \<and> list_all (\<lambda>kv. \<not> snd kv) (lru (snd (evaluate_password U w p)))"
  proof
    assume u: "DB_CONNECTION w = None \<and> list_all (\<lambda>kv. \<not> snd kv) (lru w)"
    then have "list_all (\<lambda>kv. \<not> snd kv) (lru w)" by simp
    then have n: "map_of (lru w) p \<noteq> Some True" by (rule all_false_no_true)
    with u have "\<not> fst (is_common_password U w p)"
      using unconnected_membership [of w p U] by simp
    then have "snd (evaluate_password U w p) = snd (is_common_password U w p)"
      using evaluate_password_when_not_common by blast
    then show "map_of (lru w) p \<noteq> Some True
        \<and> list_all (\<lambda>kv. \<not> snd kv) (lru (snd (evaluate_password U w p)))"
      using n u unconnected_memo_stays_false [of w U p] by simp
  qed
  show ?thesis using a b c d e f g h i j k l by (intro conjI) assumption+
qed

text \<open>
  The theorem on a missing file, on a connect that raises, on a row count that raises,
  on a start-up that succeeds, and on two evaluations in a process that never connected.
\<close>

theorem startup_failure_is_fatal_witness:
  "run_app sample_tables (fresh_world None []) [pystr_of ''password'']
     = (Inl RuntimeError, (fresh_world None [])\<lparr> stdout := [DbFileNotFound, StartupFailed] \<rparr>)
   \<and> run_app sample_tables (fresh_world (Some sample_db) [Some ''file is not a database''])
        [pystr_of ''password'']
     = (Inl RuntimeError,
        (fresh_world (Some sample_db) [])
          \<lparr> stdout := [DbConnectError ''file is not a database'', StartupFailed] \<rparr>)
   \<and> run_app sample_tables
        (fresh_world (Some sample_db) [None, Some ''no such table: passwords''])
        [pystr_of ''password'']
     = (Inl RuntimeError,
        (fresh_world (Some sample_db) [])
          \<lparr> DB_CONNECTION := Some sample_db,
            stdout := [DbConnectError ''no such table: passwords'', StartupFailed] \<rparr>)
   \<and> init_database (fresh_world (Some sample_db) [])
     = (True, (fresh_world (Some sample_db) [])
          \<lparr> DB_CONNECTION := Some sample_db, stdout := [DbConnected 2] \<rparr>)
   \<and> (\<exists>ev. fst (evaluate_password sample_tables (fresh_world (Some sample_db) [])
                   (pystr_of ''password'')) = Inr ev \<and> \<not> is_common ev)
   \<and> \<not> fst (is_common_password sample_tables
              ((fresh_world (Some sample_db) [])\<lparr> lru := [(pystr_of ''password'', False)] \<rparr>)
              (pystr_of ''password''))
   \<and> stdout (snd (evaluate_password sample_tables
              ((fresh_world (Some sample_db) [])\<lparr> lru := [(pystr_of ''password'', False)] \<rparr>)
              (pystr_of ''password''))) = []"
proof -
  let ?p = "pystr_of ''password''"
  let ?w0 = "fresh_world None []"
  let ?w1 = "fresh_world (Some sample_db) [Some ''file is not a database'']"
  let ?w2 = "fresh_world (Some sample_db) [None, Some ''no such table: passwords'']"
  let ?w3 = "fresh_world (Some sample_db) []"
  let ?w4 = "(fresh_world (Some sample_db) [])\<lparr> lru := [(pystr_of ''password'', False)] \<rparr>"
  note T0 = startup_failure_is_fatal [of ?w0 sample_tables "[?p]" ?p sample_db "''x''" "[]"]
  note T1 = startup_failure_is_fatal [of ?w1 sample_tables "[?p]" ?p sample_db
      "''file is not a database''" "[]"]
  note T2 = startup_failure_is_fatal [of ?w2 sample_tables "[?p]" ?p sample_db
      "''no such table: passwords''" "[]"]
  note T3 = startup_failure_is_fatal [of ?w3 sample_tables "[?p]" ?p sample_db "''x''" "[]"]
  note T4 = startup_failure_is_fatal [of ?w4 sample_tables "[?p]" ?p sample_db "''x''" "[]"]
  have f0: "db_file ?w0 = None" by (simp add: fresh_world_def)
  from T0 f0 have i0: "init_database ?w0 = (False, ?w0\<lparr> stdout := stdout ?w0 @ [DbFileNotFound] \<rparr>)"
    by blast
  from T0 f0 have "run_app sample_tables ?w0 [?p] =
        (Inl RuntimeError,
         (snd (init_database ?w0))\<lparr> stdout := stdout (snd (init_database ?w0)) @ [StartupFailed] \<rparr>)"
    by blast
  then have a: "run_app sample_tables ?w0 [?p]
      = (Inl RuntimeError, ?w0\<lparr> stdout := [DbFileNotFound, StartupFailed] \<rparr>)"
    unfolding i0 by (simp add: fresh_world_def)
  have f1: "db_file ?w1 = Some sample_db \<and> db_faults ?w1 = Some ''file is not a database'' # []"
    by (simp add: fresh_world_def)
  from T1 f1 have i1: "init_database ?w1
      = (False, ?w1\<lparr> db_faults := [], stdout := stdout ?w1 @ [DbConnectError ''file is not a database''] \<rparr>)"
    by blast
  then have n1: "\<not> fst (init_database ?w1)" by simp
  from T1 n1 have "run_app sample_tables ?w1 [?p] =
        (Inl RuntimeError,
         (snd (init_database ?w1))\<lparr> stdout := stdout (snd (init_database ?w1)) @ [StartupFailed] \<rparr>)"
    by blast
  then have b: "run_app sample_tables ?w1 [?p]
      = (Inl RuntimeError,
         ?w3\<lparr> stdout := [DbConnectError ''file is not a database'', StartupFailed] \<rparr>)"
    unfolding i1 by (simp add: fresh_world_def)
  have f2: "db_file ?w2 = Some sample_db
      \<and> db_faults ?w2 = None # Some ''no such table: passwords'' # []"
    by (simp add: fresh_world_def)
  from T2 f2 have i2: "init_database ?w2
      = (False, ?w2\<lparr> db_faults := [], DB_CONNECTION := Some sample_db,
                      stdout := stdout ?w2 @ [DbConnectError ''no such table: passwords''] \<rparr>)"
    by blast
  then have n2: "\<not> fst (init_database ?w2)" by simp
  from T2 n2 have "run_app sample_tables ?w2 [?p] =
        (Inl RuntimeError,
         (snd (init_database ?w2))\<lparr> stdout := stdout (snd (init_database ?w2)) @ [StartupFailed] \<rparr>)"
    by blast
  then have c: "run_app sample_tables ?w2 [?p]
      = (Inl RuntimeError,
         ?w3\<lparr> DB_CONNECTION := Some sample_db,
              stdout := [DbConnectError ''no such table: passwords'', StartupFailed] \<rparr>)"
    unfolding i2 by (simp add: fresh_world_def)
  have f3: "db_file ?w3 = Some sample_db \<and> list_all (\<lambda>f. f = None) (take 2 (db_faults ?w3))"
    by (simp add: fresh_world_def)
  from T3 f3 have "init_database ?w3
      = (True, ?w3\<lparr> db_faults := drop 2 (db_faults ?w3), DB_CONNECTION := Some sample_db,
                     stdout := stdout ?w3 @ [DbConnected (int (length sample_db))] \<rparr>)"
    by blast
  then have d: "init_database ?w3
      = (True, ?w3\<lparr> DB_CONNECTION := Some sample_db, stdout := [DbConnected 2] \<rparr>)"
    by (simp add: fresh_world_def sample_db_def)
  have u3: "DB_CONNECTION ?w3 = None \<and> map_of (lru ?w3) ?p = None \<and> PasswordRequest_valid ?p"
    using password_valid by (simp add: fresh_world_def)
  from T3 u3 have "\<exists>ev. evaluate_password sample_tables ?w3 ?p
            = (Inr ev, ?w3\<lparr> lru := take maxsize ((?p, False) # lru ?w3), misses := misses ?w3 + 1 \<rparr>)
          \<and> \<not> is_common ev \<and> rank ev = None"
    by blast
  then have e: "\<exists>ev. fst (evaluate_password sample_tables ?w3 ?p) = Inr ev \<and> \<not> is_common ev"
    by auto
  have u4: "DB_CONNECTION ?w4 = None \<and> map_of (lru ?w4) ?p \<noteq> Some True"
    by (simp add: fresh_world_def)
  from T4 u4 have "\<not> fst (is_common_password sample_tables ?w4 ?p)
        \<and> stdout (snd (evaluate_password sample_tables ?w4 ?p)) = stdout ?w4"
    by blast
  then have g: "\<not> fst (is_common_password sample_tables ?w4 ?p)"
    and h: "stdout (snd (evaluate_password sample_tables ?w4 ?p)) = []"
    by (simp_all add: fresh_world_def)
  show ?thesis using a b c d e g h by (intro conjI) assumption+
qed

text \<open>
  The claim as it was stated lets no request through when the store was never
  initialised. The evaluation of \<^verbatim>\<open>password\<close> in a process that never connected
  returns a result, reports a password of the table as not common and prints nothing.
\<close>

theorem unconnected_engine_counterexample:
  "DB_CONNECTION (fresh_world (Some sample_db) []) = None
   \<and> map_of sample_db (str_lower sample_tables (pystr_of ''password'')) = Some 2
   \<and> \<not> isl (fst (evaluate_password sample_tables (fresh_world (Some sample_db) [])
                   (pystr_of ''password'')))
   \<and> \<not> is_common (projr (fst (evaluate_password sample_tables (fresh_world (Some sample_db) [])
                   (pystr_of ''password''))))
   \<and> stdout (snd (evaluate_password sample_tables (fresh_world (Some sample_db) [])
                   (pystr_of ''password''))) = []"
proof -
  let ?w = "fresh_world (Some sample_db) []"
  obtain x where x: "calculate_entropy sample_tables (pystr_of ''password'') = Inr x" "x < 1024"
    using valid_request_entropy [OF password_valid] by blast
  have "DB_CONNECTION ?w = None" "map_of (lru ?w) (pystr_of ''password'') = None"
    by (simp_all add: fresh_world_def)
  from evaluate_password_unconnected [OF this x]
  obtain ev where ev: "evaluate_password sample_tables ?w (pystr_of ''password'')
      = (Inr ev, ?w\<lparr> lru := take maxsize ((pystr_of ''password'', False) # lru ?w),
                      misses := misses ?w + 1 \<rparr>)" "\<not> is_common ev"
    by blast
  have "map_of sample_db (str_lower sample_tables (pystr_of ''password'')) = Some 2"
    by (simp add: sample_db_def pystr_of_def sample_tables_simps)
  then show ?thesis using ev by (simp add: fresh_world_def)
qed

subsection \<open>A failed lookup\<close>

text \<open>
  Claim C9, at an input where the code departs from it. The first membership query
  for \<^verbatim>\<open>password\<close> raises: the evaluation completes, reports not common and a line
  is printed. The answer is memoised. At the second request no failure is pending and
  the store, asked directly, answers true, but the evaluation is answered from the
  memo table and reports not common again.
\<close>

theorem lookup_failure_is_memoised:
  "(\<exists>ev. fst (evaluate_password sample_tables (running_world [Some ''database is locked''] [])
                 (pystr_of ''password'')) = Inr ev \<and> \<not> is_common ev)
   \<and> snd (evaluate_password sample_tables (running_world [Some ''database is locked''] [])
            (pystr_of ''password''))
       = (running_world [] [(pystr_of ''password'', False)])
           \<lparr> misses := 1, stdout := [SearchError ''database is locked''] \<rparr>
   \<and> is_common_password_wrapped sample_tables
        ((running_world [] [(pystr_of ''password'', False)])
           \<lparr> misses := 1, stdout := [SearchError ''database is locked''] \<rparr>)
        (pystr_of ''password'')
       = (True, (running_world [] [(pystr_of ''password'', False)])
           \<lparr> misses := 1, stdout := [SearchError ''database is locked''] \<rparr>)
   \<and> (\<exists>ev. evaluate_password sample_tables
              ((running_world [] [(pystr_of ''password'', False)])
                 \<lparr> misses := 1, stdout := [SearchError ''database is locked''] \<rparr>)
              (pystr_of ''password'')
           = (Inr ev, (running_world [] [(pystr_of ''password'', False)])
                 \<lparr> hits := 1, misses := 1, stdout := [SearchError ''database is locked''] \<rparr>)
         \<and> \<not> is_common ev \<and> rank ev = None)"
proof -
  let ?p = "pystr_of ''password''"
  let ?w = "running_world [Some ''database is locked''] []"
  let ?w1 = "(running_world [] [(?p, False)])
           \<lparr> misses := 1, stdout := [SearchError ''database is locked''] \<rparr>"
  let ?w2 = "(running_world [] [(?p, False)])
           \<lparr> hits := 1, misses := 1, stdout := [SearchError ''database is locked''] \<rparr>"
  obtain x where x: "calculate_entropy sample_tables ?p = Inr x" "x < 1024"
    using valid_request_entropy [OF password_valid] by blast
  have q1: "is_common_password sample_tables ?w ?p = (False, ?w1)"
    by (simp add: is_common_password_def is_common_password_wrapped_def select_row_def
        next_fault_def running_world_def maxsize_def)
  have q2: "is_common_password sample_tables ?w1 ?p = (False, ?w2)"
    by (simp add: is_common_password_def running_world_def)
  have s: "is_common_password_wrapped sample_tables ?w1 ?p = (True, ?w1)"
    by (simp add: is_common_password_wrapped_def select_row_def next_fault_def
        running_world_def sample_db_def pystr_of_def sample_tables_simps)
  note e1 = evaluate_password_not_common [OF q1 x]
  note e2 = evaluate_password_not_common [OF q2 x]
  show ?thesis
    unfolding e1 e2 using s by simp
qed

end
